theory Spec2Isabelle
  imports Complex_Main "HOL-Library.Sublist"
begin

section \<open>JavaScript values and control flow\<close>

text \<open>
  A thrown value is an error object: the name of its constructor (its kind) and its
  message. Every \<^verbatim>\<open>new Error(msg)\<close> of the sources builds an object of kind
  \<^verbatim>\<open>Error\<close>; the client libraries may throw objects of any kind.
\<close>

datatype js_error = JsError (err_name: string) (err_message: string)

definition new_Error :: "string \<Rightarrow> js_error" where
  "new_Error msg = JsError ''Error'' msg"

text \<open>
  An awaited call either rejects (\<open>Inl\<close>) or resolves (\<open>Inr\<close>). \<open>try_catch\<close> is
  \<^verbatim>\<open>try { body } catch (error) { handler }\<close>: the handler runs on the thrown value,
  and may itself throw.
\<close>

definition try_catch :: "(js_error + 'a) \<Rightarrow> (js_error \<Rightarrow> js_error + 'a) \<Rightarrow> js_error + 'a" where
  "try_catch body handler = (case body of Inl error \<Rightarrow> handler error | Inr v \<Rightarrow> Inr v)"

text \<open>\<^verbatim>\<open>s.includes(t)\<close>: \<open>t\<close> occurs in \<open>s\<close> as a contiguous substring.\<close>

definition str_includes :: "string \<Rightarrow> string \<Rightarrow> bool" where
  "str_includes s t = sublist t s"

text \<open>\<^verbatim>\<open>xs.join(sep)\<close> on an array of strings.\<close>

fun join :: "string list \<Rightarrow> string \<Rightarrow> string" where
  "join [] sep = []"
| "join [x] sep = x"
| "join (x # y # ys) sep = x @ sep @ join (y # ys) sep"

definition nl :: string where
  "nl = [CHR 0x0A]"

section \<open>Data model\<close>

text \<open>Free-form metadata object: its keys and values in insertion order.\<close>

type_synonym metadata = "(string \<times> string) list"

text \<open>A LangChain document, as the service reads it.\<close>

record document =
  pageContent :: string
  metadata :: metadata

record splitter_config =
  chunkSize :: nat
  chunkOverlap :: nat

datatype vector_store = SupabaseVectorStore (tableName: string) (queryName: string)

record persona =
  name :: string
  role :: string
  background :: string
  style :: string

record chat_message =
  msg_role :: string
  msg_content :: string

record completion_request =
  model :: string
  messages :: "chat_message list"
  max_tokens :: nat
  temperature :: real

text \<open>The answer of the count query, \<^verbatim>\<open>{ count, error }\<close>; either may be null.\<close>

record count_response =
  count :: "nat option"
  resp_error :: "js_error option"

section \<open>External collaborators\<close>

text \<open>
  The service calls the text splitter, the vector store, the chat-completion endpoint
  and the database client of third-party packages. Their answers are parameters of
  the model: \<open>'db\<close> is the state of the backing store, \<open>now\<close> is what
  \<^verbatim>\<open>new Date().toISOString()\<close> returns and \<open>uuidv4\<close> the identifier drawn for the
  current request. A completion resolves to the message contents of its choices.
\<close>

record 'db env =
  createDocuments :: "splitter_config \<Rightarrow> string list \<Rightarrow> metadata list \<Rightarrow> js_error + document list"
  addDocuments :: "vector_store \<Rightarrow> document list \<Rightarrow> 'db \<Rightarrow> (js_error + unit) \<times> 'db"
  similaritySearch :: "vector_store \<Rightarrow> string \<Rightarrow> nat \<Rightarrow> 'db \<Rightarrow> js_error + document list"
  completions_create :: "completion_request \<Rightarrow> js_error + string list"
  count_query :: "'db \<Rightarrow> js_error + count_response"
  now :: string
  uuidv4 :: string

section \<open>RAGService\<close>

record rag_service =
  vectorStore :: "vector_store option"
  the_persona :: persona

record upload_result =
  success :: bool
  upload_message :: string
  chunks :: nat
  upload_metadata :: metadata

record source =
  content :: string
  source_metadata :: metadata

record chat_result =
  response :: string
  sources :: "source list"
  sessionId :: "string option"

record query_result =
  query :: string
  query_response :: string
  query_sources :: "source list"

record stats =
  totalDocuments :: nat
  vectorStoreStatus :: string
  stats_error :: "string option"
  stats_timestamp :: string

record health =
  status :: string
  health_vectorStore :: "string option"
  documents :: "nat option"
  health_error :: "string option"
  health_timestamp :: string

subsection \<open>uploadDocument\<close>

definition uploadDocument ::
  "'db env \<Rightarrow> rag_service \<Rightarrow> 'db \<Rightarrow> string \<Rightarrow> metadata \<Rightarrow> (js_error + upload_result) \<times> 'db" where
  "uploadDocument env svc db content_arg metadata_arg =
     (case createDocuments env \<lparr>chunkSize = 1000, chunkOverlap = 200\<rparr> [content_arg] [metadata_arg] of
        Inl error \<Rightarrow> (Inl (new_Error (''Failed to upload document: '' @ err_message error)), db)
      | Inr docs \<Rightarrow>
          (case vectorStore svc of
             None \<Rightarrow>
               (Inr \<lparr>success = True, upload_message = ''Document uploaded successfully'',
                     chunks = length docs, upload_metadata = metadata_arg\<rparr>, db)
           | Some vs \<Rightarrow>
               (case addDocuments env vs docs db of
                  (Inl error, db') \<Rightarrow>
                    (Inl (new_Error (''Failed to upload document: '' @ err_message error)), db')
                | (Inr u, db') \<Rightarrow>
                    (Inr \<lparr>success = True, upload_message = ''Document uploaded successfully'',
                          chunks = length docs, upload_metadata = metadata_arg\<rparr>, db'))))"

subsection \<open>searchDocuments\<close>

definition quota_message :: string where
  "quota_message = ''OpenAI API quota exceeded. Please check your billing or try again later.''"

definition searchDocuments ::
  "'db env \<Rightarrow> rag_service \<Rightarrow> 'db \<Rightarrow> string \<Rightarrow> nat \<Rightarrow> js_error + document list" where
  "searchDocuments env svc db query_arg limit =
     try_catch
       (case vectorStore svc of
          None \<Rightarrow> Inl (new_Error ''Vector store not initialized'')
        | Some vs \<Rightarrow> similaritySearch env vs query_arg limit db)
       (\<lambda>error.
          if err_message error \<noteq> [] \<and> str_includes (err_message error) ''429''
          then Inl (new_Error quota_message)
          else if err_message error \<noteq> [] \<and> str_includes (err_message error) ''InsufficientQuotaError''
          then Inl (new_Error quota_message)
          else Inl (new_Error (''Failed to search documents: '' @ err_message error)))"

subsection \<open>generatePersonaResponse\<close>

definition persona_prompt :: "persona \<Rightarrow> string \<Rightarrow> string \<Rightarrow> string" where
  \<open>persona_prompt p query_arg context =
     ''You are '' @ name p @ '', '' @ role p
       @ ''. You should respond as if you are this person, using your knowledge, experience, and personal style.''
       @ nl @ nl
       @ ''Your background: '' @ background p @ nl
       @ ''Your communication style: '' @ style p @ nl @ nl
       @ ''Use the following context from your documents, interviews, articles, and videos to answer the user's question. Respond as if you are speaking directly to them, drawing from your personal experience and knowledge:''
       @ nl @ nl
       @ ''Context:'' @ nl
       @ context @ nl @ nl
       @ ''Question: '' @ query_arg @ nl @ nl
       @ ''Remember: You ARE '' @ name p
       @ ''. Respond in first person, using phrases like "I believe", "In my experience", "Based on my work", etc. Be authentic to your persona while being helpful and informative.''\<close>

definition system_prompt :: "persona \<Rightarrow> string" where
  "system_prompt p =
     ''You are '' @ name p @ '', '' @ role p
       @ ''. You are an AI assistant that responds as this specific person would, based on their documents, interviews, articles, and videos. Always respond in first person as if you are ''
       @ name p @ '' speaking directly to the user.''"

text \<open>\<^verbatim>\<open>completion.choices[0].message.content\<close>: reading a property of \<^verbatim>\<open>undefined\<close> throws.\<close>

definition first_choice :: "string list \<Rightarrow> js_error + string" where
  \<open>first_choice choices =
     (case choices of
        [] \<Rightarrow> Inl (JsError ''TypeError'' ''Cannot read properties of undefined (reading 'message')'')
      | c # cs \<Rightarrow> Inr c)\<close>

definition generatePersonaResponse ::
  "'db env \<Rightarrow> rag_service \<Rightarrow> string \<Rightarrow> string \<Rightarrow> js_error + string" where
  "generatePersonaResponse env svc query_arg context =
     try_catch
       (case completions_create env
               \<lparr>model = ''gpt-3.5-turbo'',
                messages =
                  [\<lparr>msg_role = ''system'', msg_content = system_prompt (the_persona svc)\<rparr>,
                   \<lparr>msg_role = ''user'',
                    msg_content = persona_prompt (the_persona svc) query_arg context\<rparr>],
                max_tokens = 600,
                temperature = 7 / 10\<rparr> of
          Inl error \<Rightarrow> Inl error
        | Inr choices \<Rightarrow> first_choice choices)
       (\<lambda>error.
          if err_message error \<noteq> [] \<and> str_includes (err_message error) ''429''
          then Inl (new_Error quota_message)
          else if err_message error \<noteq> [] \<and> str_includes (err_message error) ''InsufficientQuotaError''
          then Inl (new_Error quota_message)
          else Inl (new_Error (''Failed to generate response: '' @ err_message error)))"

subsection \<open>chat and directQuery\<close>

definition build_context :: "document list \<Rightarrow> string" where
  "build_context results = join (map pageContent results) (nl @ nl)"

definition to_source :: "document \<Rightarrow> source" where
  "to_source doc = \<lparr>content = pageContent doc, source_metadata = metadata doc\<rparr>"

text \<open>
  The parameter \<^verbatim>\<open>sessionId = null\<close>: \<open>None\<close> is both the omitted argument and the
  \<^verbatim>\<open>null\<close> that the default puts in its place.
\<close>

definition chat ::
  "'db env \<Rightarrow> rag_service \<Rightarrow> 'db \<Rightarrow> string \<Rightarrow> string option \<Rightarrow> js_error + chat_result" where
  "chat env svc db message_arg sessionId_arg =
     try_catch
       (case searchDocuments env svc db message_arg 5 of
          Inl error \<Rightarrow> Inl error
        | Inr results \<Rightarrow>
            (case generatePersonaResponse env svc message_arg (build_context results) of
               Inl error \<Rightarrow> Inl error
             | Inr resp \<Rightarrow>
                 Inr \<lparr>response = resp, sources = map to_source results,
                      sessionId = sessionId_arg\<rparr>))
       (\<lambda>error. Inl (new_Error (''Failed to generate response: '' @ err_message error)))"

definition directQuery ::
  "'db env \<Rightarrow> rag_service \<Rightarrow> 'db \<Rightarrow> string \<Rightarrow> js_error + query_result" where
  "directQuery env svc db query_arg =
     try_catch
       (case searchDocuments env svc db query_arg 3 of
          Inl error \<Rightarrow> Inl error
        | Inr results \<Rightarrow>
            (case generatePersonaResponse env svc query_arg (build_context results) of
               Inl error \<Rightarrow> Inl error
             | Inr resp \<Rightarrow>
                 Inr \<lparr>query = query_arg, query_response = resp,
                      query_sources = map to_source results\<rparr>))
       (\<lambda>error. Inl (new_Error (''Failed to process direct query: '' @ err_message error)))"

subsection \<open>getStats and healthCheck\<close>

definition getStats :: "'db env \<Rightarrow> rag_service \<Rightarrow> 'db \<Rightarrow> js_error + stats" where
  "getStats env svc db =
     try_catch
       (case count_query env db of
          Inl error \<Rightarrow> Inl error
        | Inr resp \<Rightarrow>
            (case resp_error resp of
               Some error \<Rightarrow> Inl error
             | None \<Rightarrow>
                 Inr \<lparr>totalDocuments = (case count resp of None \<Rightarrow> 0 | Some c \<Rightarrow> c),
                      vectorStoreStatus =
                        (if vectorStore svc \<noteq> None then ''active'' else ''inactive''),
                      stats_error = None,
                      stats_timestamp = now env\<rparr>))
       (\<lambda>error.
          Inr \<lparr>totalDocuments = 0, vectorStoreStatus = ''error'',
               stats_error = Some (err_message error), stats_timestamp = now env\<rparr>)"

definition healthCheck :: "'db env \<Rightarrow> rag_service \<Rightarrow> 'db \<Rightarrow> js_error + health" where
  "healthCheck env svc db =
     try_catch
       (case getStats env svc db of
          Inl error \<Rightarrow> Inl error
        | Inr st \<Rightarrow>
            Inr \<lparr>status = ''healthy'', health_vectorStore = Some (vectorStoreStatus st),
                 documents = Some (totalDocuments st), health_error = None,
                 health_timestamp = now env\<rparr>)
       (\<lambda>error.
          Inr \<lparr>status = ''unhealthy'', health_vectorStore = None, documents = None,
               health_error = Some (err_message error), health_timestamp = now env\<rparr>)"

definition getSession :: "'db env \<Rightarrow> string \<Rightarrow> string \<times> string \<times> nat" where
  "getSession env sessionId_arg = (sessionId_arg, now env, 0)"

section \<open>Chat sessions\<close>

record message_obj =
  mo_id :: string
  mo_content :: string
  mo_type :: string
  mo_timestamp :: string

record session =
  session_id :: string
  createdAt :: string
  session_messages :: "message_obj list"
  session_metadata :: metadata

text \<open>
  The \<^verbatim>\<open>Map\<close> of chat sessions, in insertion order: \<open>map_set\<close> replaces the value of a
  key in place or appends a new entry, \<open>map_delete\<close> also says whether the key was there.
\<close>

type_synonym session_map = "(string \<times> session) list"

definition map_get :: "session_map \<Rightarrow> string \<Rightarrow> session option" where
  "map_get m k = map_of m k"

fun map_set :: "session_map \<Rightarrow> string \<Rightarrow> session \<Rightarrow> session_map" where
  "map_set [] k v = [(k, v)]"
| "map_set ((k', v') # m) k v = (if k' = k then (k, v) # m else (k', v') # map_set m k v)"

definition map_delete :: "session_map \<Rightarrow> string \<Rightarrow> session_map \<times> bool" where
  "map_delete m k = (filter (\<lambda>kv. fst kv \<noteq> k) m, map_of m k \<noteq> None)"

section \<open>HTTP routes\<close>

record session_summary =
  summary_id :: string
  summary_createdAt :: string
  messageCount :: nat
  summary_metadata :: metadata

datatype body =
    ErrorBody string
  | UploadBody upload_result
  | ChatBody chat_result
  | SessionInfoBody string string nat
  | StatsBody stats
  | QueryBody query_result
  | HealthBody health
  | StartBody string string session
  | MessageBody string message_obj session
  | SessionBody session
  | EndedBody string
  | SessionsBody "session_summary list"

datatype http_response = Response (http_status: nat) (body: body)

text \<open>The state of the process: the session map of the chat routes, the service singleton
  and the backing store behind it.\<close>

record 'db app_state =
  chatSessions :: session_map
  ragService :: rag_service
  db :: 'db

text \<open>A field of a JSON request body is \<open>None\<close> when it is missing; \<^verbatim>\<open>!v\<close> holds of a
  missing field and of the empty string.\<close>

definition falsy :: "string option \<Rightarrow> bool" where
  "falsy v = (case v of None \<Rightarrow> True | Some s \<Rightarrow> s = [])"

subsection \<open>routes/rag.js\<close>

definition rag_upload ::
  "'db env \<Rightarrow> 'db app_state \<Rightarrow> string option \<Rightarrow> metadata option \<Rightarrow> http_response \<times> 'db app_state" where
  "rag_upload env st content_field metadata_field =
     (let metadata_arg = (case metadata_field of None \<Rightarrow> [] | Some m \<Rightarrow> m) in
      if falsy content_field
      then (Response 400 (ErrorBody ''Document content is required''), st)
      else
        (case uploadDocument env (ragService st) (db st) (the content_field) metadata_arg of
           (Inl error, db') \<Rightarrow> (Response 500 (ErrorBody (err_message error)), st\<lparr>db := db'\<rparr>)
         | (Inr result, db') \<Rightarrow> (Response 200 (UploadBody result), st\<lparr>db := db'\<rparr>)))"

definition rag_chat ::
  "'db env \<Rightarrow> 'db app_state \<Rightarrow> string option \<Rightarrow> string option \<Rightarrow> http_response \<times> 'db app_state" where
  "rag_chat env st message_field sessionId_field =
     (if falsy message_field
      then (Response 400 (ErrorBody ''Message is required''), st)
      else
        (case chat env (ragService st) (db st) (the message_field) sessionId_field of
           Inl error \<Rightarrow> (Response 500 (ErrorBody (err_message error)), st)
         | Inr result \<Rightarrow> (Response 200 (ChatBody result), st)))"

definition rag_session ::
  "'db env \<Rightarrow> 'db app_state \<Rightarrow> string \<Rightarrow> http_response \<times> 'db app_state" where
  "rag_session env st sessionId_param =
     (case getSession env sessionId_param of
        (i, c, n) \<Rightarrow> (Response 200 (SessionInfoBody i c n), st))"

definition rag_stats :: "'db env \<Rightarrow> 'db app_state \<Rightarrow> http_response \<times> 'db app_state" where
  "rag_stats env st =
     (case getStats env (ragService st) (db st) of
        Inl error \<Rightarrow> (Response 500 (ErrorBody (err_message error)), st)
      | Inr s \<Rightarrow> (Response 200 (StatsBody s), st))"

definition rag_query ::
  "'db env \<Rightarrow> 'db app_state \<Rightarrow> string option \<Rightarrow> http_response \<times> 'db app_state" where
  "rag_query env st query_field =
     (if falsy query_field
      then (Response 400 (ErrorBody ''Query is required''), st)
      else
        (case directQuery env (ragService st) (db st) (the query_field) of
           Inl error \<Rightarrow> (Response 500 (ErrorBody (err_message error)), st)
         | Inr result \<Rightarrow> (Response 200 (QueryBody result), st)))"

definition rag_health :: "'db env \<Rightarrow> 'db app_state \<Rightarrow> http_response \<times> 'db app_state" where
  "rag_health env st =
     (case healthCheck env (ragService st) (db st) of
        Inl error \<Rightarrow> (Response 500 (ErrorBody (err_message error)), st)
      | Inr h \<Rightarrow> (Response 200 (HealthBody h), st))"

subsection \<open>routes/chat.js\<close>

definition chat_start ::
  "'db env \<Rightarrow> 'db app_state \<Rightarrow> metadata option \<Rightarrow> http_response \<times> 'db app_state" where
  "chat_start env st metadata_field =
     (let sid = uuidv4 env;
          s = \<lparr>session_id = sid, createdAt = now env, session_messages = [],
               session_metadata = (case metadata_field of None \<Rightarrow> [] | Some m \<Rightarrow> m)\<rparr>
      in (Response 200 (StartBody sid ''Chat session started successfully'' s),
          st\<lparr>chatSessions := map_set (chatSessions st) sid s\<rparr>))"

definition chat_message ::
  "'db env \<Rightarrow> 'db app_state \<Rightarrow> string option \<Rightarrow> string option \<Rightarrow> string option
     \<Rightarrow> http_response \<times> 'db app_state" where
  "chat_message env st sessionId_field message_field type_field =
     (let type_arg = (case type_field of None \<Rightarrow> ''user'' | Some t \<Rightarrow> t) in
      if falsy sessionId_field \<or> falsy message_field
      then (Response 400 (ErrorBody ''Session ID and message are required''), st)
      else
        (case map_get (chatSessions st) (the sessionId_field) of
           None \<Rightarrow> (Response 404 (ErrorBody ''Chat session not found''), st)
         | Some s \<Rightarrow>
             (let messageObj = \<lparr>mo_id = uuidv4 env, mo_content = the message_field,
                                mo_type = type_arg, mo_timestamp = now env\<rparr>;
                  s' = s\<lparr>session_messages := session_messages s @ [messageObj]\<rparr>
              in (Response 200 (MessageBody ''Message sent successfully'' messageObj s'),
                  st\<lparr>chatSessions := map_set (chatSessions st) (the sessionId_field) s'\<rparr>))))"

definition chat_get_session ::
  "'db app_state \<Rightarrow> string \<Rightarrow> http_response \<times> 'db app_state" where
  "chat_get_session st sessionId_param =
     (case map_get (chatSessions st) sessionId_param of
        None \<Rightarrow> (Response 404 (ErrorBody ''Chat session not found''), st)
      | Some s \<Rightarrow> (Response 200 (SessionBody s), st))"

definition chat_delete_session ::
  "'db app_state \<Rightarrow> string \<Rightarrow> http_response \<times> 'db app_state" where
  "chat_delete_session st sessionId_param =
     (case map_delete (chatSessions st) sessionId_param of
        (m', deleted) \<Rightarrow>
          if \<not> deleted
          then (Response 404 (ErrorBody ''Chat session not found''), st\<lparr>chatSessions := m'\<rparr>)
          else (Response 200 (EndedBody ''Chat session ended successfully''),
                st\<lparr>chatSessions := m'\<rparr>))"

definition chat_sessions :: "'db app_state \<Rightarrow> http_response \<times> 'db app_state" where
  "chat_sessions st =
     (Response 200
        (SessionsBody
           (map (\<lambda>s. \<lparr>summary_id = session_id s, summary_createdAt = createdAt s,
                       messageCount = length (session_messages s),
                       summary_metadata = session_metadata s\<rparr>)
                (map snd (chatSessions st)))),
      st)"

subsection \<open>Dispatch\<close>

datatype request =
    PostRagUpload "string option" "metadata option"
  | PostRagChat "string option" "string option"
  | GetRagSession string
  | GetRagStats
  | PostRagQuery "string option"
  | GetRagHealth
  | PostChatStart "metadata option"
  | PostChatMessage "string option" "string option" "string option"
  | GetChatSession string
  | DeleteChatSession string
  | GetChatSessions

fun handle :: "'db env \<Rightarrow> 'db app_state \<Rightarrow> request \<Rightarrow> http_response \<times> 'db app_state" where
  "handle env st (PostRagUpload c m) = rag_upload env st c m"
| "handle env st (PostRagChat m s) = rag_chat env st m s"
| "handle env st (GetRagSession s) = rag_session env st s"
| "handle env st GetRagStats = rag_stats env st"
| "handle env st (PostRagQuery q) = rag_query env st q"
| "handle env st GetRagHealth = rag_health env st"
| "handle env st (PostChatStart m) = chat_start env st m"
| "handle env st (PostChatMessage s m t) = chat_message env st s m t"
| "handle env st (GetChatSession s) = chat_get_session st s"
| "handle env st (DeleteChatSession s) = chat_delete_session st s"
| "handle env st GetChatSessions = chat_sessions st"

section \<open>Source preview of the chat interface\<close>

text \<open>ChatInterface.jsx shows \<^verbatim>\<open>source.content.substring(0, 200)\<close> followed by three dots.\<close>

definition source_preview :: "source \<Rightarrow> string" where
  "source_preview s = take 200 (content s) @ ''...''"

section \<open>Chunker and Vector Index of the specification\<close>

text \<open>
  The sources hand splitting to \<^verbatim>\<open>RecursiveCharacterTextSplitter\<close> and storage and search
  to \<^verbatim>\<open>SupabaseVectorStore\<close> and the \<^verbatim>\<open>match_documents\<close> database function; none of
  them is among the sources. The definitions of this section follow the specification
  of these components instead.
\<close>

definition is_whitespace :: "char \<Rightarrow> bool" where
  "is_whitespace c = (c \<in> {CHR '' '', CHR 0x09, CHR 0x0A, CHR 0x0B, CHR 0x0C, CHR 0x0D})"

definition blank :: "string \<Rightarrow> bool" where
  "blank text = list_all is_whitespace text"

definition EmptyInputError :: js_error where
  "EmptyInputError = JsError ''EmptyInputError'' ''Input text is empty or whitespace-only''"

definition IndexUnavailableError :: js_error where
  "IndexUnavailableError = JsError ''IndexUnavailableError'' ''Vector index is unreachable''"

text \<open>
  Modelled from the spec: \<^verbatim>\<open>Chunker.split(text, targetSize, overlap)\<close>, whose
  implementation (the text splitter of the langchain package) is missing. It fails with
  \<^verbatim>\<open>EmptyInputError\<close> if the text is empty or whitespace-only; a text shorter than
  \<open>targetSize\<close> yields exactly one chunk covering the whole document; the splitting of a
  longer text along the hierarchy of separators is the parameter \<open>segment\<close>.
\<close>

definition split ::
  "(string \<Rightarrow> nat \<Rightarrow> nat \<Rightarrow> string list) \<Rightarrow> string \<Rightarrow> nat \<Rightarrow> nat \<Rightarrow> js_error + string list" where
  "split segment text targetSize overlap =
     (if blank text then Inl EmptyInputError
      else if length text < targetSize then Inr [text]
      else Inr (segment text targetSize overlap))"

text \<open>
  Modelled from the spec: the splitter's \<^verbatim>\<open>createDocuments(texts, metadatas)\<close>, missing
  from the sources: every text is split in turn, and each chunk becomes a document that
  inherits the metadata given for its text.
\<close>

fun chunker_createDocuments ::
  "(string \<Rightarrow> nat \<Rightarrow> nat \<Rightarrow> string list) \<Rightarrow> splitter_config \<Rightarrow> string list \<Rightarrow> metadata list
     \<Rightarrow> js_error + document list" where
  "chunker_createDocuments segment cfg [] mds = Inr []"
| "chunker_createDocuments segment cfg (t # ts) mds =
     (case split segment t (chunkSize cfg) (chunkOverlap cfg) of
        Inl error \<Rightarrow> Inl error
      | Inr cs \<Rightarrow>
          (case chunker_createDocuments segment cfg ts (tl mds) of
             Inl error \<Rightarrow> Inl error
           | Inr ds \<Rightarrow>
               Inr (map (\<lambda>c. \<lparr>pageContent = c,
                               metadata = (case mds of [] \<Rightarrow> [] | m # ms \<Rightarrow> m)\<rparr>) cs @ ds)))"

text \<open>An index entry is the persisted tuple of vector, text and metadata.\<close>

record 'v index_entry =
  vector :: 'v
  entry_text :: string
  entry_metadata :: metadata

record 'v vector_index =
  entries :: "'v index_entry list"
  reachable :: bool

text \<open>
  Modelled from the spec: the Vector Index, missing from the sources. \<open>add\<close> appends and
  never rejects duplicate content; \<open>search\<close> returns the \<open>k\<close> entries of highest
  similarity to the query vector across the entire index, ranked descending, ties in
  insertion order; \<open>count\<close> is the number of stored entries; each fails with
  \<^verbatim>\<open>IndexUnavailableError\<close> if the backing store is unreachable. The similarity of two
  vectors is a parameter.
\<close>

definition index_add ::
  "'v index_entry list \<Rightarrow> 'v vector_index \<Rightarrow> js_error + 'v vector_index" where
  "index_add new ix =
     (if reachable ix then Inr (ix\<lparr>entries := entries ix @ new\<rparr>)
      else Inl IndexUnavailableError)"

definition index_search ::
  "('v \<Rightarrow> 'v \<Rightarrow> real) \<Rightarrow> 'v \<Rightarrow> nat \<Rightarrow> 'v vector_index \<Rightarrow> js_error + 'v index_entry list" where
  "index_search similarity qv k ix =
     (if reachable ix
      then Inr (take k (sort_key (\<lambda>e. - similarity qv (vector e)) (entries ix)))
      else Inl IndexUnavailableError)"

definition index_count :: "'v vector_index \<Rightarrow> js_error + nat" where
  "index_count ix = (if reachable ix then Inr (length (entries ix)) else Inl IndexUnavailableError)"

text \<open>
  Modelled from the spec: \<^verbatim>\<open>embedBatch\<close> of the Embedding Client, order-preserving and
  of the same length as its input, failing as soon as one text fails; \<^verbatim>\<open>embed\<close> itself,
  the call to the provider, is the parameter \<open>embedder\<close>.
\<close>

fun embedBatch :: "(string \<Rightarrow> js_error + 'v) \<Rightarrow> string list \<Rightarrow> js_error + 'v list" where
  "embedBatch embedder [] = Inr []"
| "embedBatch embedder (t # ts) =
     (case embedder t of
        Inl error \<Rightarrow> Inl error
      | Inr v \<Rightarrow> (case embedBatch embedder ts of Inl error \<Rightarrow> Inl error | Inr vs \<Rightarrow> Inr (v # vs)))"

text \<open>The providers and the configuration that the specified components are built on.\<close>

record 'v components =
  segment :: "string \<Rightarrow> nat \<Rightarrow> nat \<Rightarrow> string list"
  embedder :: "string \<Rightarrow> js_error + 'v"
  similarity :: "'v \<Rightarrow> 'v \<Rightarrow> real"
  generate :: "completion_request \<Rightarrow> js_error + string list"
  clock :: string
  next_uuid :: string

definition entry_document :: "'v index_entry \<Rightarrow> document" where
  "entry_document e = \<lparr>pageContent = entry_text e, metadata = entry_metadata e\<rparr>"

text \<open>
  Modelled from the spec: the collaborators of the service assembled from the specified
  components. Upload embeds every chunk and then adds all entries in one step;
  retrieval embeds the query and searches; the count query reports a failure of the
  index in its \<^verbatim>\<open>error\<close> field.
\<close>

definition spec_env :: "'v components \<Rightarrow> 'v vector_index env" where
  "spec_env cs =
     \<lparr>createDocuments = chunker_createDocuments (segment cs),
      addDocuments = (\<lambda>vs docs ix.
         case embedBatch (embedder cs) (map pageContent docs) of
           Inl error \<Rightarrow> (Inl error, ix)
         | Inr vecs \<Rightarrow>
             (case index_add
                     (map (\<lambda>(v, d). \<lparr>vector = v, entry_text = pageContent d,
                                      entry_metadata = metadata d\<rparr>) (zip vecs docs)) ix of
                Inl error \<Rightarrow> (Inl error, ix)
              | Inr ix' \<Rightarrow> (Inr (), ix'))),
      similaritySearch = (\<lambda>vs q k ix.
         case embedder cs q of
           Inl error \<Rightarrow> Inl error
         | Inr qv \<Rightarrow>
             (case index_search (similarity cs) qv k ix of
                Inl error \<Rightarrow> Inl error
              | Inr es \<Rightarrow> Inr (map entry_document es))),
      completions_create = generate cs,
      count_query = (\<lambda>ix.
         case index_count ix of
           Inl error \<Rightarrow> Inr \<lparr>count = None, resp_error = Some error\<rparr>
         | Inr n \<Rightarrow> Inr \<lparr>count = Some n, resp_error = None\<rparr>),
      now = clock cs,
      uuidv4 = next_uuid cs\<rparr>"

section \<open>The text splitter of the langchain package\<close>





section \<open>A concrete configuration\<close>

text \<open>
  The service as its constructor builds it, simple providers (a text is embedded as its
  length, two vectors are the more similar the closer they are, the model answers with
  one fixed choice), and four index entries, for evaluating the operations on concrete
  inputs.
\<close>

definition service :: rag_service where
  "service =
     \<lparr>vectorStore = Some (SupabaseVectorStore ''documents'' ''match_documents''),
      the_persona =
        \<lparr>name = ''Mallikarjuna Iytha'',
         role = ''AI/ML Engineer and Technology Leader'',
         background = ''Experienced professional in artificial intelligence, machine learning, and technology leadership'',
         style = ''Professional, knowledgeable, and helpful with a focus on AI/ML and technology topics''\<rparr>\<rparr>"

definition demo :: "int components" where
  "demo =
     \<lparr>segment = (\<lambda>text targetSize overlap. [take targetSize text, drop (targetSize - overlap) text]),
      embedder = (\<lambda>t. Inr (int (length t))),
      similarity = (\<lambda>q v. - \<bar>real_of_int q - real_of_int v\<bar>),
      generate = (\<lambda>req. Inr [''In my experience, yes.'']),
      clock = ''2025-01-01T00:00:00.000Z'',
      next_uuid = ''7f9c24e5-0000-4000-8000-000000000001''\<rparr>"

definition demo_index :: "int vector_index" where
  "demo_index =
     \<lparr>entries =
        [\<lparr>vector = 5, entry_text = ''alpha'', entry_metadata = [(''source'', ''a.txt'')]\<rparr>,
         \<lparr>vector = 4, entry_text = ''beta'', entry_metadata = []\<rparr>,
         \<lparr>vector = 5, entry_text = ''gamma'', entry_metadata = []\<rparr>,
         \<lparr>vector = 5, entry_text = ''delta'', entry_metadata = []\<rparr>],
      reachable = True\<rparr>"

text \<open>Providers that fail: the embedding call answers with a rate-limit error, or with
  a transport error.\<close>

definition quota_demo :: "int components" where
  "quota_demo =
     demo\<lparr>embedder := (\<lambda>t. Inl (JsError ''RateLimitError'' ''429 You exceeded your current quota''))\<rparr>"

definition outage_demo :: "int components" where
  "outage_demo = demo\<lparr>embedder := (\<lambda>t. Inl (JsError ''APIConnectionError'' ''Connection error.''))\<rparr>"

text \<open>An index without entries, and one whose only chunk is 250 characters long.\<close>

definition empty_index :: "int vector_index" where
  "empty_index = \<lparr>entries = [], reachable = True\<rparr>"

definition long_text :: string where
  "long_text = replicate 250 (CHR ''x'')"

definition long_index :: "int vector_index" where
  "long_index =
     \<lparr>entries = [\<lparr>vector = 250, entry_text = long_text, entry_metadata = []\<rparr>],
      reachable = True\<rparr>"

text \<open>The process right after start: no chat session yet.\<close>

definition demo_state :: "int vector_index app_state" where
  "demo_state = \<lparr>chatSessions = [], ragService = service, db = demo_index\<rparr>"

section \<open>Statistics and health\<close>

text \<open>What \<open>getStats\<close> returns, by the outcome of the count query.\<close>

lemma getStats_cases:
  "getStats env svc dbs =
     (case count_query env dbs of
        Inl e \<Rightarrow> Inr \<lparr>totalDocuments = 0, vectorStoreStatus = ''error'',
                      stats_error = Some (err_message e), stats_timestamp = now env\<rparr>
      | Inr resp \<Rightarrow>
          (case resp_error resp of
             Some e \<Rightarrow> Inr \<lparr>totalDocuments = 0, vectorStoreStatus = ''error'',
                      stats_error = Some (err_message e), stats_timestamp = now env\<rparr>
           | None \<Rightarrow> Inr \<lparr>totalDocuments = (case count resp of None \<Rightarrow> 0 | Some c \<Rightarrow> c),
                      vectorStoreStatus = (if vectorStore svc \<noteq> None then ''active'' else ''inactive''),
                      stats_error = None, stats_timestamp = now env\<rparr>))"
  by (simp add: getStats_def try_catch_def split: sum.splits option.splits)

lemma getStats_total: "\<exists>s. getStats env svc dbs = Inr s"
  by (simp add: getStats_cases split: sum.splits option.splits)

text \<open>
  C3: for every state of the index backend \<open>getStats\<close> returns and never throws; when
  the count query fails, by rejecting or by answering with an error, it returns
  \<^verbatim>\<open>{totalDocuments: 0, vectorStoreStatus: "error"}\<close> with the message of the
  underlying error attached.
\<close>

theorem getStats_never_throws:
  "(\<exists>s. getStats env svc dbs = Inr s) \<and>
   ((count_query env dbs = Inl e \<or>
     (\<exists>resp. count_query env dbs = Inr resp \<and> resp_error resp = Some e)) \<longrightarrow>
    getStats env svc dbs =
      Inr \<lparr>totalDocuments = 0, vectorStoreStatus = ''error'',
           stats_error = Some (err_message e), stats_timestamp = now env\<rparr>)"
  using getStats_total [of env svc dbs] by (auto simp add: getStats_cases)

text \<open>An unreachable index and a rejected count query, evaluated.\<close>

theorem getStats_never_throws_witness:
  "getStats (spec_env demo) service (demo_index\<lparr>reachable := False\<rparr>) =
     Inr \<lparr>totalDocuments = 0, vectorStoreStatus = ''error'',
          stats_error = Some ''Vector index is unreachable'',
          stats_timestamp = ''2025-01-01T00:00:00.000Z''\<rparr> \<and>
   getStats ((spec_env demo)\<lparr>count_query := \<lambda>ix. Inl (JsError ''FetchError'' ''fetch failed'')\<rparr>)
       service demo_index =
     Inr \<lparr>totalDocuments = 0, vectorStoreStatus = ''error'',
          stats_error = Some ''fetch failed'',
          stats_timestamp = ''2025-01-01T00:00:00.000Z''\<rparr>"
proof -
  have a: "count_query (spec_env demo) (demo_index\<lparr>reachable := False\<rparr>) =
             Inr \<lparr>count = None, resp_error = Some IndexUnavailableError\<rparr>"
    by (simp add: spec_env_def index_count_def demo_index_def)
  have b: "count_query ((spec_env demo)\<lparr>count_query := \<lambda>ix. Inl (JsError ''FetchError'' ''fetch failed'')\<rparr>)
             demo_index = Inl (JsError ''FetchError'' ''fetch failed'')"
    by simp
  have n: "now (spec_env demo) = ''2025-01-01T00:00:00.000Z''"
    by (simp add: spec_env_def demo_def)
  show ?thesis
    using getStats_never_throws [of "spec_env demo" service "demo_index\<lparr>reachable := False\<rparr>" IndexUnavailableError]
      getStats_never_throws [of "(spec_env demo)\<lparr>count_query := \<lambda>ix. Inl (JsError ''FetchError'' ''fetch failed'')\<rparr>"
         service demo_index "JsError ''FetchError'' ''fetch failed''"]
      a b n
    by (simp add: IndexUnavailableError_def)
qed

lemma healthCheck_cases:
  "healthCheck env svc dbs =
     (case getStats env svc dbs of
        Inl e \<Rightarrow> Inr \<lparr>status = ''unhealthy'', health_vectorStore = None, documents = None,
               health_error = Some (err_message e), health_timestamp = now env\<rparr>
      | Inr st \<Rightarrow> Inr \<lparr>status = ''healthy'', health_vectorStore = Some (vectorStoreStatus st),
                 documents = Some (totalDocuments st), health_error = None,
                 health_timestamp = now env\<rparr>)"
  by (simp add: healthCheck_def try_catch_def split: sum.splits)

text \<open>
  C9: \<open>healthCheck\<close> always returns status \<^verbatim>\<open>healthy\<close>, for every state of the
  index backend: \<open>getStats\<close> never throws, so the \<^verbatim>\<open>unhealthy\<close> branch is never
  taken, and a failing count query shows only as \<^verbatim>\<open>vectorStore: "error"\<close> with
  \<^verbatim>\<open>documents: 0\<close>.
\<close>

theorem healthCheck_always_healthy:
  "\<exists>h. healthCheck env svc dbs = Inr h \<and> status h = ''healthy'' \<and>
       ((count_query env dbs = Inl e \<or>
         (\<exists>resp. count_query env dbs = Inr resp \<and> resp_error resp = Some e)) \<longrightarrow>
        health_vectorStore h = Some ''error'' \<and> documents h = Some 0)"
proof -
  obtain s where s: "getStats env svc dbs = Inr s"
    using getStats_total [of env svc dbs] by blast
  have "(count_query env dbs = Inl e \<or>
         (\<exists>resp. count_query env dbs = Inr resp \<and> resp_error resp = Some e)) \<longrightarrow>
        vectorStoreStatus s = ''error'' \<and> totalDocuments s = 0"
    using s by (auto simp add: getStats_cases)
  then show ?thesis
    using s by (simp add: healthCheck_cases)
qed

text \<open>The health report over an unreachable index, evaluated.\<close>

theorem healthCheck_always_healthy_witness:
  "healthCheck (spec_env demo) service (demo_index\<lparr>reachable := False\<rparr>) =
     Inr \<lparr>status = ''healthy'', health_vectorStore = Some ''error'', documents = Some 0,
          health_error = None, health_timestamp = ''2025-01-01T00:00:00.000Z''\<rparr>"
proof -
  have a: "count_query (spec_env demo) (demo_index\<lparr>reachable := False\<rparr>) =
             Inr \<lparr>count = None, resp_error = Some IndexUnavailableError\<rparr>"
    by (simp add: spec_env_def index_count_def demo_index_def)
  have n: "now (spec_env demo) = ''2025-01-01T00:00:00.000Z''"
    by (simp add: spec_env_def demo_def)
  obtain h where h: "healthCheck (spec_env demo) service (demo_index\<lparr>reachable := False\<rparr>) = Inr h"
    "status h = ''healthy''" "health_vectorStore h = Some ''error''" "documents h = Some 0"
    using healthCheck_always_healthy [of "spec_env demo" service "demo_index\<lparr>reachable := False\<rparr>" IndexUnavailableError] a
    by auto
  have "health_error h = None \<and> health_timestamp h = ''2025-01-01T00:00:00.000Z''"
    using h(1,2) n by (auto simp add: healthCheck_cases split: sum.splits)
  then show ?thesis
    using h by (cases h) simp
qed

section \<open>Error classification on the chat path\<close>

lemma str_includes_nonempty: "str_includes m t \<Longrightarrow> t \<noteq> [] \<Longrightarrow> m \<noteq> []"
  by (auto simp add: str_includes_def)

lemma searchDocuments_quota:
  assumes "vectorStore svc = Some vs"
    and "similaritySearch env vs q k dbs = Inl e"
    and "str_includes (err_message e) ''429'' \<or> str_includes (err_message e) ''InsufficientQuotaError''"
  shows "searchDocuments env svc dbs q k = Inl (new_Error quota_message)"
proof -
  have "err_message e \<noteq> []"
    using assms(3) str_includes_nonempty by fastforce
  then show ?thesis
    using assms by (auto simp add: searchDocuments_def try_catch_def)
qed

lemma searchDocuments_error_kind:
  "searchDocuments env svc dbs q k = Inl e \<Longrightarrow> err_name e = ''Error''"
  by (auto simp add: searchDocuments_def try_catch_def new_Error_def
      split: sum.splits option.splits if_splits)

lemma chat_error_kind: "chat env svc dbs m sid = Inl e \<Longrightarrow> err_name e = ''Error''"
  by (auto simp add: chat_def try_catch_def new_Error_def split: sum.splits)

lemma chat_search_failure:
  "searchDocuments env svc dbs m 5 = Inl e \<Longrightarrow>
   chat env svc dbs m sid = Inl (new_Error (''Failed to generate response: '' @ err_message e))"
  by (simp add: chat_def try_catch_def)

text \<open>
  C1, as the code has it: when the search of the vector store fails during \<open>chat\<close> with
  an error whose message contains \<^verbatim>\<open>429\<close> or \<^verbatim>\<open>InsufficientQuotaError\<close>,
  \<open>searchDocuments\<close> replaces it by a new error of kind \<^verbatim>\<open>Error\<close> with the fixed quota
  message, and \<open>chat\<close> rejects with an error of kind \<^verbatim>\<open>Error\<close> whose message is
  that quota message after \<^verbatim>\<open>Failed to generate response: \<close>. Every rejection of
  \<open>chat\<close> has kind \<^verbatim>\<open>Error\<close>, so only the message text tells a quota failure
  from another failure.
\<close>

theorem chat_quota_error_by_message:
  assumes "vectorStore svc = Some vs"
    and "similaritySearch env vs m 5 dbs = Inl e"
    and "str_includes (err_message e) ''429'' \<or> str_includes (err_message e) ''InsufficientQuotaError''"
  shows "searchDocuments env svc dbs m 5 = Inl (JsError ''Error'' quota_message) \<and>
         chat env svc dbs m sid =
           Inl (JsError ''Error'' (''Failed to generate response: '' @ quota_message)) \<and>
         (chat env' svc' dbs' m' sid' = Inl e' \<longrightarrow> err_name e' = ''Error'')"
proof -
  have s: "searchDocuments env svc dbs m 5 = Inl (new_Error quota_message)"
    using assms by (rule searchDocuments_quota)
  have c: "chat env svc dbs m sid =
             Inl (new_Error (''Failed to generate response: '' @ err_message (new_Error quota_message)))"
    using s by (rule chat_search_failure)
  show ?thesis
    using s c chat_error_kind [of env' svc' dbs' m' sid' e'] by (simp add: new_Error_def)
qed

text \<open>A provider answering the embedding of the query with a 429 error, evaluated.\<close>

theorem chat_quota_error_by_message_witness:
  "searchDocuments (spec_env quota_demo) service demo_index ''hi'' 5 =
     Inl (JsError ''Error'' ''OpenAI API quota exceeded. Please check your billing or try again later.'') \<and>
   chat (spec_env quota_demo) service demo_index ''hi'' None =
     Inl (JsError ''Error''
       ''Failed to generate response: OpenAI API quota exceeded. Please check your billing or try again later.'')"
proof -
  have a: "vectorStore service = Some (SupabaseVectorStore ''documents'' ''match_documents'')"
    by (simp add: service_def)
  have b: "similaritySearch (spec_env quota_demo) (SupabaseVectorStore ''documents'' ''match_documents'')
             ''hi'' 5 demo_index = Inl (JsError ''RateLimitError'' ''429 You exceeded your current quota'')"
    by (simp add: spec_env_def quota_demo_def)
  have c: "str_includes (err_message (JsError ''RateLimitError'' ''429 You exceeded your current quota'')) ''429''
      \<or> str_includes (err_message (JsError ''RateLimitError'' ''429 You exceeded your current quota''))
           ''InsufficientQuotaError''"
    by (simp add: str_includes_def sublist_code)
  show ?thesis
    using chat_quota_error_by_message [OF a b c, of None "spec_env quota_demo" service demo_index "''hi''" None]
    by (simp add: quota_message_def)
qed

text \<open>
  C1 as stated fails: the rejection of \<open>chat\<close> after a 429 failure is not of kind
  \<^verbatim>\<open>QuotaExceededError\<close>; it has the same kind as the rejection after a transport
  failure, and \<open>searchDocuments\<close> does not hand the error of the provider on unchanged.
\<close>

theorem chat_quota_error_kind_counterexample:
  "(case chat (spec_env quota_demo) service demo_index ''hi'' None of
      Inl e \<Rightarrow> err_name e \<noteq> ''QuotaExceededError'' | Inr r \<Rightarrow> False) \<and>
   chat (spec_env quota_demo) service demo_index ''hi'' None =
     Inl (JsError ''Error''
       ''Failed to generate response: OpenAI API quota exceeded. Please check your billing or try again later.'') \<and>
   chat (spec_env outage_demo) service demo_index ''hi'' None =
     Inl (JsError ''Error'' ''Failed to generate response: Failed to search documents: Connection error.'') \<and>
   similaritySearch (spec_env quota_demo) (SupabaseVectorStore ''documents'' ''match_documents'')
       ''hi'' 5 demo_index =
     Inl (JsError ''RateLimitError'' ''429 You exceeded your current quota'') \<and>
   searchDocuments (spec_env quota_demo) service demo_index ''hi'' 5 =
     Inl (JsError ''Error'' ''OpenAI API quota exceeded. Please check your billing or try again later.'')"
proof -
  have q: "similaritySearch (spec_env quota_demo) (SupabaseVectorStore ''documents'' ''match_documents'')
             ''hi'' 5 demo_index = Inl (JsError ''RateLimitError'' ''429 You exceeded your current quota'')"
    by (simp add: spec_env_def quota_demo_def)
  have o: "similaritySearch (spec_env outage_demo) (SupabaseVectorStore ''documents'' ''match_documents'')
             ''hi'' 5 demo_index = Inl (JsError ''APIConnectionError'' ''Connection error.'')"
    by (simp add: spec_env_def outage_demo_def)
  have sq: "searchDocuments (spec_env quota_demo) service demo_index ''hi'' 5 =
              Inl (JsError ''Error'' ''OpenAI API quota exceeded. Please check your billing or try again later.'')"
    using q by (simp add: searchDocuments_def try_catch_def service_def str_includes_def
        sublist_code new_Error_def quota_message_def)
  have so: "searchDocuments (spec_env outage_demo) service demo_index ''hi'' 5 =
              Inl (JsError ''Error'' ''Failed to search documents: Connection error.'')"
    using o by (simp add: searchDocuments_def try_catch_def service_def str_includes_def
        sublist_code new_Error_def)
  show ?thesis
    using q sq so by (simp add: chat_def try_catch_def new_Error_def)
qed

section \<open>Upload\<close>

text \<open>The outcomes of \<open>uploadDocument\<close>, one lemma for each path through its body.\<close>

lemma uploadDocument_resolves:
  assumes "uploadDocument env svc dbs c md = (Inr res, dbs')"
  shows "\<exists>docs. createDocuments env \<lparr>chunkSize = 1000, chunkOverlap = 200\<rparr> [c] [md] = Inr docs \<and>
           res = \<lparr>success = True, upload_message = ''Document uploaded successfully'',
                  chunks = length docs, upload_metadata = md\<rparr> \<and>
           (case vectorStore svc of
              None \<Rightarrow> dbs' = dbs
            | Some vs \<Rightarrow> addDocuments env vs docs dbs = (Inr (), dbs'))"
  using assms
  by (auto simp add: uploadDocument_def split: sum.splits option.splits prod.splits)

lemma uploadDocument_split_failure:
  assumes "createDocuments env \<lparr>chunkSize = 1000, chunkOverlap = 200\<rparr> [c] [md] = Inl e"
  shows "uploadDocument env svc dbs c md =
           (Inl (new_Error (''Failed to upload document: '' @ err_message e)), dbs)"
  using assms by (simp add: uploadDocument_def)

lemma uploadDocument_store_failure:
  assumes "createDocuments env \<lparr>chunkSize = 1000, chunkOverlap = 200\<rparr> [c] [md] = Inr docs"
    and "vectorStore svc = Some vs"
    and "addDocuments env vs docs dbs = (Inl e, dbs')"
  shows "uploadDocument env svc dbs c md =
           (Inl (new_Error (''Failed to upload document: '' @ err_message e)), dbs')"
  using assms by (simp add: uploadDocument_def)

lemma uploadDocument_no_store:
  assumes "createDocuments env \<lparr>chunkSize = 1000, chunkOverlap = 200\<rparr> [c] [md] = Inr docs"
    and "vectorStore svc = None"
  shows "uploadDocument env svc dbs c md =
           (Inr \<lparr>success = True, upload_message = ''Document uploaded successfully'',
                 chunks = length docs, upload_metadata = md\<rparr>, dbs)"
  using assms by (simp add: uploadDocument_def)

text \<open>
  C2, as the code has it: \<open>uploadDocument\<close> resolves with \<^verbatim>\<open>{success: true, chunks: n}\<close>
  only when the splitter produced \<open>n\<close> documents and either \<^verbatim>\<open>addDocuments\<close> resolved on
  all of them, or the vector store is not initialized, in which case the backing store is left
  as it was. When the splitter fails, or the store is initialized and \<^verbatim>\<open>addDocuments\<close>
  fails, the upload rejects with \<^verbatim>\<open>Failed to upload document: \<close> and the message of
  the failure.
\<close>

theorem uploadDocument_success_or_failure:
  "(uploadDocument env svc dbs c md = (Inr res, dbs') \<longrightarrow>
      success res \<and>
      (\<exists>docs. createDocuments env \<lparr>chunkSize = 1000, chunkOverlap = 200\<rparr> [c] [md] = Inr docs \<and>
         chunks res = length docs \<and>
         (case vectorStore svc of
            None \<Rightarrow> dbs' = dbs
          | Some vs \<Rightarrow> addDocuments env vs docs dbs = (Inr (), dbs')))) \<and>
   (createDocuments env \<lparr>chunkSize = 1000, chunkOverlap = 200\<rparr> [c] [md] = Inl e \<longrightarrow>
      fst (uploadDocument env svc dbs c md) =
        Inl (JsError ''Error'' (''Failed to upload document: '' @ err_message e))) \<and>
   (createDocuments env \<lparr>chunkSize = 1000, chunkOverlap = 200\<rparr> [c] [md] = Inr ds \<and>
    vectorStore svc = Some vs \<and> fst (addDocuments env vs ds dbs) = Inl e \<longrightarrow>
      fst (uploadDocument env svc dbs c md) =
        Inl (JsError ''Error'' (''Failed to upload document: '' @ err_message e)))"
proof (intro conjI impI)
  assume a: "uploadDocument env svc dbs c md = (Inr res, dbs')"
  from uploadDocument_resolves [OF a]
  show "success res" by auto
  from uploadDocument_resolves [OF a]
  show "\<exists>docs. createDocuments env \<lparr>chunkSize = 1000, chunkOverlap = 200\<rparr> [c] [md] = Inr docs \<and>
         chunks res = length docs \<and>
         (case vectorStore svc of
            None \<Rightarrow> dbs' = dbs
          | Some vs \<Rightarrow> addDocuments env vs docs dbs = (Inr (), dbs'))"
    by auto
next
  assume "createDocuments env \<lparr>chunkSize = 1000, chunkOverlap = 200\<rparr> [c] [md] = Inl e"
  then show "fst (uploadDocument env svc dbs c md) =
        Inl (JsError ''Error'' (''Failed to upload document: '' @ err_message e))"
    by (simp add: uploadDocument_split_failure new_Error_def)
next
  assume a: "createDocuments env \<lparr>chunkSize = 1000, chunkOverlap = 200\<rparr> [c] [md] = Inr ds \<and>
    vectorStore svc = Some vs \<and> fst (addDocuments env vs ds dbs) = Inl e"
  then obtain d where "addDocuments env vs ds dbs = (Inl e, d)"
    by (cases "addDocuments env vs ds dbs") auto
  with a show "fst (uploadDocument env svc dbs c md) =
        Inl (JsError ''Error'' (''Failed to upload document: '' @ err_message e))"
    by (simp add: uploadDocument_store_failure new_Error_def)
qed

text \<open>The specified splitter on a short text and on a whitespace-only text.\<close>

lemma demo_createDocuments_hello:
  "createDocuments (spec_env cs) \<lparr>chunkSize = 1000, chunkOverlap = 200\<rparr> [''hello world''] [md] =
     Inr [\<lparr>pageContent = ''hello world'', metadata = md\<rparr>]"
  by (simp add: spec_env_def split_def blank_def is_whitespace_def)

lemma demo_createDocuments_blank:
  "createDocuments (spec_env cs) \<lparr>chunkSize = 1000, chunkOverlap = 200\<rparr> [''   ''] [md] =
     Inl EmptyInputError"
  by (simp add: spec_env_def split_def blank_def is_whitespace_def)

text \<open>A successful upload, a failing splitter and a failing embedding provider, evaluated.\<close>

theorem uploadDocument_success_or_failure_witness:
  "success \<lparr>success = True, upload_message = ''Document uploaded successfully'',
            chunks = 1, upload_metadata = []\<rparr> \<and>
   addDocuments (spec_env demo) (SupabaseVectorStore ''documents'' ''match_documents'')
       [\<lparr>pageContent = ''hello world'', metadata = []\<rparr>] empty_index =
     (Inr (), \<lparr>entries = [\<lparr>vector = 11, entry_text = ''hello world'', entry_metadata = []\<rparr>],
               reachable = True\<rparr>) \<and>
   fst (uploadDocument (spec_env demo) service empty_index ''   '' []) =
     Inl (JsError ''Error'' ''Failed to upload document: Input text is empty or whitespace-only'') \<and>
   fst (uploadDocument (spec_env quota_demo) service empty_index ''hello world'' []) =
     Inl (JsError ''Error'' ''Failed to upload document: 429 You exceeded your current quota'')"
proof -
  let ?vs = "SupabaseVectorStore ''documents'' ''match_documents''"
  let ?ix = "\<lparr>entries = [\<lparr>vector = 11, entry_text = ''hello world'', entry_metadata = []\<rparr>],
               reachable = True\<rparr> :: int vector_index"
  let ?res = "\<lparr>success = True, upload_message = ''Document uploaded successfully'',
            chunks = 1, upload_metadata = []\<rparr>"
  have vs: "vectorStore service = Some ?vs"
    by (simp add: service_def)
  have add: "addDocuments (spec_env demo) ?vs [\<lparr>pageContent = ''hello world'', metadata = []\<rparr>] empty_index
               = (Inr (), ?ix)"
    by (simp add: spec_env_def demo_def empty_index_def index_add_def)
  have up: "uploadDocument (spec_env demo) service empty_index ''hello world'' [] = (Inr ?res, ?ix)"
    using add vs by (simp add: uploadDocument_def demo_createDocuments_hello)
  have one: "success ?res \<and>
      (\<exists>docs. createDocuments (spec_env demo) \<lparr>chunkSize = 1000, chunkOverlap = 200\<rparr> [''hello world''] [[]] = Inr docs \<and>
         chunks ?res = length docs \<and>
         (case vectorStore service of
            None \<Rightarrow> ?ix = empty_index
          | Some vs \<Rightarrow> addDocuments (spec_env demo) vs docs empty_index = (Inr (), ?ix)))"
    using uploadDocument_success_or_failure [of "spec_env demo" service empty_index "''hello world''" "[]" ?res ?ix] up
    by blast
  have two: "fst (uploadDocument (spec_env demo) service empty_index ''   '' []) =
     Inl (JsError ''Error'' (''Failed to upload document: '' @ err_message EmptyInputError))"
    using uploadDocument_success_or_failure [of "spec_env demo" service empty_index "''   ''" "[]" _ _ EmptyInputError]
      demo_createDocuments_blank [of demo "[]"]
    by blast
  have fail: "fst (addDocuments (spec_env quota_demo) ?vs [\<lparr>pageContent = ''hello world'', metadata = []\<rparr>] empty_index)
      = Inl (JsError ''RateLimitError'' ''429 You exceeded your current quota'')"
    by (simp add: spec_env_def quota_demo_def)
  have three: "fst (uploadDocument (spec_env quota_demo) service empty_index ''hello world'' []) =
     Inl (JsError ''Error'' (''Failed to upload document: '' @
        err_message (JsError ''RateLimitError'' ''429 You exceeded your current quota'')))"
    using uploadDocument_success_or_failure [of "spec_env quota_demo" service empty_index "''hello world''" "[]" _ _
       "JsError ''RateLimitError'' ''429 You exceeded your current quota''"
       "[\<lparr>pageContent = ''hello world'', metadata = []\<rparr>]" ?vs]
      demo_createDocuments_hello [of quota_demo "[]"] vs fail
    by blast
  show ?thesis
    using one two three vs by (auto simp add: EmptyInputError_def demo_createDocuments_hello)
qed

text \<open>
  C2 as stated fails: with the vector store not initialized, the upload of a one-chunk
  document reports success with \<^verbatim>\<open>chunks: 1\<close> although the index still has no entry.
\<close>

theorem uploadDocument_uninitialized_store_counterexample:
  "uploadDocument (spec_env demo) (service\<lparr>vectorStore := None\<rparr>) empty_index ''hello world'' [] =
     (Inr \<lparr>success = True, upload_message = ''Document uploaded successfully'',
           chunks = 1, upload_metadata = []\<rparr>, empty_index) \<and>
   entries empty_index = []"
  by (simp add: uploadDocument_no_store [OF demo_createDocuments_hello] empty_index_def)

section \<open>Chat and direct query\<close>

text \<open>What a resolved call of each operation says about the calls it made.\<close>

lemma searchDocuments_resolves:
  assumes "searchDocuments env svc dbs q k = Inr results"
  shows "\<exists>vs. vectorStore svc = Some vs \<and> similaritySearch env vs q k dbs = Inr results"
  using assms
  by (auto simp add: searchDocuments_def try_catch_def split: sum.splits option.splits if_splits)

lemma generatePersonaResponse_resolves:
  assumes "generatePersonaResponse env svc q ctx = Inr resp"
  shows "\<exists>rest. completions_create env
           \<lparr>model = ''gpt-3.5-turbo'',
            messages =
              [\<lparr>msg_role = ''system'', msg_content = system_prompt (the_persona svc)\<rparr>,
               \<lparr>msg_role = ''user'', msg_content = persona_prompt (the_persona svc) q ctx\<rparr>],
            max_tokens = 600, temperature = 7 / 10\<rparr> = Inr (resp # rest)"
  using assms
  by (auto simp add: generatePersonaResponse_def try_catch_def first_choice_def
      split: sum.splits list.splits if_splits)

lemma chat_resolves:
  assumes "chat env svc dbs m sid = Inr r"
  shows "\<exists>results. searchDocuments env svc dbs m 5 = Inr results \<and>
           generatePersonaResponse env svc m (build_context results) = Inr (response r) \<and>
           sources r = map to_source results \<and> sessionId r = sid"
  using assms by (auto simp add: chat_def try_catch_def split: sum.splits)

lemma directQuery_resolves:
  assumes "directQuery env svc dbs q = Inr r"
  shows "\<exists>results. searchDocuments env svc dbs q 3 = Inr results \<and>
           generatePersonaResponse env svc q (build_context results) = Inr (query_response r) \<and>
           query_sources r = map to_source results \<and> query r = q"
  using assms by (auto simp add: directQuery_def try_catch_def split: sum.splits)

lemma content_to_source: "map content (map to_source results) = map pageContent results"
  by (simp add: to_source_def comp_def)

lemma metadata_to_source: "map source_metadata (map to_source results) = map metadata results"
  by (simp add: to_source_def comp_def)

text \<open>
  C5, as the code has it: \<open>chat\<close> and \<open>directQuery\<close> return as sources the retrieved
  documents in retrieval order, each with its whole \<^verbatim>\<open>pageContent\<close> as \<^verbatim>\<open>content\<close>
  and with its metadata; the operations truncate nothing. A preview of at most 200
  characters followed by three dots is made only by the chat interface when it shows a
  source.
\<close>

theorem sources_carry_full_text:
  "(chat env svc dbs m sid = Inr r \<longrightarrow>
      (\<exists>results. searchDocuments env svc dbs m 5 = Inr results \<and>
         map content (sources r) = map pageContent results \<and>
         map source_metadata (sources r) = map metadata results)) \<and>
   (directQuery env svc dbs q = Inr qr \<longrightarrow>
      (\<exists>results. searchDocuments env svc dbs q 3 = Inr results \<and>
         map content (query_sources qr) = map pageContent results \<and>
         map source_metadata (query_sources qr) = map metadata results)) \<and>
   length (source_preview s) = min 200 (length (content s)) + 3 \<and>
   prefix (take 200 (content s)) (source_preview s)"
proof (intro conjI impI)
  assume "chat env svc dbs m sid = Inr r"
  from chat_resolves [OF this]
  show "\<exists>results. searchDocuments env svc dbs m 5 = Inr results \<and>
         map content (sources r) = map pageContent results \<and>
         map source_metadata (sources r) = map metadata results"
    using content_to_source metadata_to_source by auto
next
  assume "directQuery env svc dbs q = Inr qr"
  from directQuery_resolves [OF this]
  show "\<exists>results. searchDocuments env svc dbs q 3 = Inr results \<and>
         map content (query_sources qr) = map pageContent results \<and>
         map source_metadata (query_sources qr) = map metadata results"
    using content_to_source metadata_to_source by auto
next
  show "length (source_preview s) = min 200 (length (content s)) + 3"
    by (simp add: source_preview_def)
  show "prefix (take 200 (content s)) (source_preview s)"
    by (simp add: source_preview_def)
qed

text \<open>The operations on the index whose only chunk has 250 characters.\<close>

lemma demo_generate:
  "generatePersonaResponse (spec_env demo) svc q ctx = Inr ''In my experience, yes.''"
  by (simp add: generatePersonaResponse_def try_catch_def spec_env_def demo_def first_choice_def)

lemma demo_search_long:
  "searchDocuments (spec_env demo) service long_index ''q'' k =
     Inr (take k [\<lparr>pageContent = long_text, metadata = []\<rparr>])"
  by (simp add: searchDocuments_def try_catch_def spec_env_def demo_def service_def
      long_index_def index_search_def entry_document_def flip: take_map)

lemma demo_chat_long:
  "chat (spec_env demo) service long_index ''q'' None =
     Inr \<lparr>response = ''In my experience, yes.'',
          sources = [\<lparr>content = long_text, source_metadata = []\<rparr>], sessionId = None\<rparr>"
  by (simp add: chat_def try_catch_def demo_search_long demo_generate to_source_def)

lemma demo_directQuery_long:
  "directQuery (spec_env demo) service long_index ''q'' =
     Inr \<lparr>query = ''q'', query_response = ''In my experience, yes.'',
          query_sources = [\<lparr>content = long_text, source_metadata = []\<rparr>]\<rparr>"
  by (simp add: directQuery_def try_catch_def demo_search_long demo_generate to_source_def)

text \<open>A chat and a direct query over the 250-character chunk, evaluated.\<close>

theorem sources_carry_full_text_witness:
  "map content (sources \<lparr>response = ''In my experience, yes.'',
          sources = [\<lparr>content = long_text, source_metadata = []\<rparr>], sessionId = None\<rparr>) =
     [long_text] \<and>
   map content (query_sources \<lparr>query = ''q'', query_response = ''In my experience, yes.'',
          query_sources = [\<lparr>content = long_text, source_metadata = []\<rparr>]\<rparr>) = [long_text] \<and>
   searchDocuments (spec_env demo) service long_index ''q'' 5 =
     Inr [\<lparr>pageContent = long_text, metadata = []\<rparr>]"
  using sources_carry_full_text [of "spec_env demo" service long_index "''q''" None
      "\<lparr>response = ''In my experience, yes.'',
          sources = [\<lparr>content = long_text, source_metadata = []\<rparr>], sessionId = None\<rparr>"
      "''q''"
      "\<lparr>query = ''q'', query_response = ''In my experience, yes.'',
          query_sources = [\<lparr>content = long_text, source_metadata = []\<rparr>]\<rparr>"]
    demo_chat_long demo_directQuery_long
  by (auto simp add: demo_search_long)

text \<open>
  C5 as stated fails: the source returned for a chunk of 250 characters carries all 250
  characters, not a truncated preview; the preview of the interface would have 203.
\<close>

theorem chat_sources_not_truncated_counterexample:
  "chat (spec_env demo) service long_index ''q'' None =
     Inr \<lparr>response = ''In my experience, yes.'',
          sources = [\<lparr>content = long_text, source_metadata = []\<rparr>], sessionId = None\<rparr> \<and>
   directQuery (spec_env demo) service long_index ''q'' =
     Inr \<lparr>query = ''q'', query_response = ''In my experience, yes.'',
          query_sources = [\<lparr>content = long_text, source_metadata = []\<rparr>]\<rparr> \<and>
   entry_text (hd (entries long_index)) = long_text \<and>
   length long_text = 250 \<and>
   length (source_preview \<lparr>content = long_text, source_metadata = []\<rparr>) = 203"
proof -
  have "entry_text (hd (entries long_index)) = long_text"
    by (simp add: long_index_def)
  moreover have "length long_text = 250"
    by (simp add: long_text_def)
  moreover have "length (source_preview \<lparr>content = long_text, source_metadata = []\<rparr>) = 203"
    by (simp add: source_preview_def long_text_def)
  ultimately show ?thesis
    by (simp add: demo_chat_long demo_directQuery_long)
qed

section \<open>Retrieval and context assembly\<close>

text \<open>
  Where the elements and the separators of a joined array lie: element \<open>i\<close> starts after
  the \<open>i\<close> elements before it and their separators, and is followed by the separator
  unless it is the last.
\<close>

lemma join_nth:
  "i < length xs \<Longrightarrow>
   take (length (xs ! i))
     (drop (sum_list (map (\<lambda>x. length x + length sep) (take i xs))) (join xs sep)) = xs ! i"
proof (induction xs sep arbitrary: i rule: join.induct)
  case (1 sep)
  then show ?case by simp
next
  case (2 x sep)
  then show ?case by simp
next
  case (3 x y ys sep)
  show ?case
  proof (cases i)
    case 0
    then show ?thesis by simp
  next
    case (Suc j)
    then have "j < length (y # ys)"
      using "3.prems" by simp
    from "3.IH" [OF this] Suc show ?thesis
      by simp
  qed
qed

lemma join_separator:
  "Suc i < length xs \<Longrightarrow>
   take (length sep)
     (drop (sum_list (map (\<lambda>x. length x + length sep) (take i xs)) + length (xs ! i))
        (join xs sep)) = sep"
proof (induction xs sep arbitrary: i rule: join.induct)
  case (1 sep)
  then show ?case by simp
next
  case (2 x sep)
  then show ?case by simp
next
  case (3 x y ys sep)
  show ?case
  proof (cases i)
    case 0
    then show ?thesis by simp
  next
    case (Suc j)
    then have "Suc j < length (y # ys)"
      using "3.prems" by simp
    from "3.IH" [OF this] Suc show ?thesis
      by (simp add: add.assoc)
  qed
qed

lemma length_join:
  "length (join xs sep) = sum_list (map length xs) + length sep * (length xs - 1)"
  by (induction xs sep rule: join.induct) simp_all

text \<open>Retrieval over the four entries for a query of four characters: the entry with
  vector 4 comes first, the three entries at distance 1 follow in insertion order.\<close>

lemma demo_search_what:
  "searchDocuments (spec_env demo) service demo_index ''what'' k =
     Inr (take k
       [\<lparr>pageContent = ''beta'', metadata = []\<rparr>,
        \<lparr>pageContent = ''alpha'', metadata = [(''source'', ''a.txt'')]\<rparr>,
        \<lparr>pageContent = ''gamma'', metadata = []\<rparr>,
        \<lparr>pageContent = ''delta'', metadata = []\<rparr>])"
  by (simp add: searchDocuments_def try_catch_def spec_env_def demo_def service_def
      demo_index_def index_search_def entry_document_def flip: take_map)

lemma demo_chat_what:
  "chat (spec_env demo) service demo_index ''what'' None =
     Inr \<lparr>response = ''In my experience, yes.'',
          sources =
            [\<lparr>content = ''beta'', source_metadata = []\<rparr>,
             \<lparr>content = ''alpha'', source_metadata = [(''source'', ''a.txt'')]\<rparr>,
             \<lparr>content = ''gamma'', source_metadata = []\<rparr>,
             \<lparr>content = ''delta'', source_metadata = []\<rparr>],
          sessionId = None\<rparr>"
  by (simp add: chat_def try_catch_def demo_search_what demo_generate to_source_def)

lemma demo_directQuery_what:
  "directQuery (spec_env demo) service demo_index ''what'' =
     Inr \<lparr>query = ''what'', query_response = ''In my experience, yes.'',
          query_sources =
            [\<lparr>content = ''beta'', source_metadata = []\<rparr>,
             \<lparr>content = ''alpha'', source_metadata = [(''source'', ''a.txt'')]\<rparr>,
             \<lparr>content = ''gamma'', source_metadata = []\<rparr>]\<rparr>"
  by (simp add: directQuery_def try_catch_def demo_search_what demo_generate to_source_def)

text \<open>The specified search returns \<open>k\<close> entries, or all entries of a smaller index.\<close>

lemma index_search_length:
  assumes "index_search sim qv k ix = Inr es"
  shows "length es = min k (length (entries ix))"
  using assms by (auto simp add: index_search_def split: if_splits)

lemma spec_similaritySearch_length:
  assumes "similaritySearch (spec_env cs) vs q k ix = Inr results"
  shows "length results = min k (length (entries ix))"
  using assms
  by (auto simp add: spec_env_def split: sum.splits dest: index_search_length)

text \<open>
  C6: \<open>chat\<close> asks the vector store for the top 5 and \<open>directQuery\<close> for the top 3, and
  return as sources exactly what the store answered; over the specified Vector Index the
  answer, for every state of the index, is no longer than the \<open>k\<close> asked for and no
  longer than the number of stored entries.
\<close>

theorem retrieval_within_top_k:
  "(chat env svc dbs m sid = Inr r \<longrightarrow>
      (\<exists>vs results. vectorStore svc = Some vs \<and> similaritySearch env vs m 5 dbs = Inr results \<and>
         sources r = map to_source results)) \<and>
   (directQuery env svc dbs q = Inr qr \<longrightarrow>
      (\<exists>vs results. vectorStore svc = Some vs \<and> similaritySearch env vs q 3 dbs = Inr results \<and>
         query_sources qr = map to_source results)) \<and>
   (index_search sim qv k ix = Inr es \<longrightarrow> length es \<le> k \<and> length es \<le> length (entries ix)) \<and>
   (chat (spec_env cs) svc ix m sid = Inr r' \<longrightarrow>
      length (sources r') \<le> 5 \<and> length (sources r') \<le> length (entries ix)) \<and>
   (directQuery (spec_env cs) svc ix q = Inr qr' \<longrightarrow>
      length (query_sources qr') \<le> 3 \<and> length (query_sources qr') \<le> length (entries ix))"
proof (intro conjI impI)
  assume "chat env svc dbs m sid = Inr r"
  from chat_resolves [OF this] obtain results
    where "searchDocuments env svc dbs m 5 = Inr results" "sources r = map to_source results"
    by blast
  with searchDocuments_resolves [of env svc dbs m 5 results]
  show "\<exists>vs results. vectorStore svc = Some vs \<and> similaritySearch env vs m 5 dbs = Inr results \<and>
         sources r = map to_source results"
    by blast
next
  assume "directQuery env svc dbs q = Inr qr"
  from directQuery_resolves [OF this] obtain results
    where "searchDocuments env svc dbs q 3 = Inr results" "query_sources qr = map to_source results"
    by blast
  with searchDocuments_resolves [of env svc dbs q 3 results]
  show "\<exists>vs results. vectorStore svc = Some vs \<and> similaritySearch env vs q 3 dbs = Inr results \<and>
         query_sources qr = map to_source results"
    by blast
next
  assume a: "index_search sim qv k ix = Inr es"
  from index_search_length [OF a] show "length es \<le> k" by simp
  from index_search_length [OF a] show "length es \<le> length (entries ix)" by simp
next
  assume "chat (spec_env cs) svc ix m sid = Inr r'"
  from chat_resolves [OF this] obtain results
    where s: "searchDocuments (spec_env cs) svc ix m 5 = Inr results"
      and r: "sources r' = map to_source results"
    by blast
  from searchDocuments_resolves [OF s] obtain vs
    where "similaritySearch (spec_env cs) vs m 5 ix = Inr results"
    by blast
  from spec_similaritySearch_length [OF this] r
  show "length (sources r') \<le> 5" and "length (sources r') \<le> length (entries ix)"
    by simp_all
next
  assume "directQuery (spec_env cs) svc ix q = Inr qr'"
  from directQuery_resolves [OF this] obtain results
    where s: "searchDocuments (spec_env cs) svc ix q 3 = Inr results"
      and r: "query_sources qr' = map to_source results"
    by blast
  from searchDocuments_resolves [OF s] obtain vs
    where "similaritySearch (spec_env cs) vs q 3 ix = Inr results"
    by blast
  from spec_similaritySearch_length [OF this] r
  show "length (query_sources qr') \<le> 3" and "length (query_sources qr') \<le> length (entries ix)"
    by simp_all
qed

text \<open>Chat (top 5 of four entries) and direct query (top 3 of four entries), evaluated.\<close>

theorem retrieval_within_top_k_witness:
  "(case chat (spec_env demo) service demo_index ''what'' None of
      Inl e \<Rightarrow> False
    | Inr r \<Rightarrow> length (sources r) = 4 \<and> length (sources r) \<le> 5 \<and>
        length (sources r) \<le> length (entries demo_index)) \<and>
   (case directQuery (spec_env demo) service demo_index ''what'' of
      Inl e \<Rightarrow> False
    | Inr qr \<Rightarrow> length (query_sources qr) = 3 \<and> length (query_sources qr) \<le> 3 \<and>
        length (query_sources qr) \<le> length (entries demo_index)) \<and>
   (case index_search (similarity demo) 4 3 demo_index of
      Inl e \<Rightarrow> False
    | Inr es \<Rightarrow> map entry_text es = [''beta'', ''alpha'', ''gamma''] \<and> length es \<le> 3 \<and>
        length es \<le> length (entries demo_index))"
proof -
  let ?r = "\<lparr>response = ''In my experience, yes.'',
          sources =
            [\<lparr>content = ''beta'', source_metadata = []\<rparr>,
             \<lparr>content = ''alpha'', source_metadata = [(''source'', ''a.txt'')]\<rparr>,
             \<lparr>content = ''gamma'', source_metadata = []\<rparr>,
             \<lparr>content = ''delta'', source_metadata = []\<rparr>],
          sessionId = None\<rparr>"
  let ?qr = "\<lparr>query = ''what'', query_response = ''In my experience, yes.'',
          query_sources =
            [\<lparr>content = ''beta'', source_metadata = []\<rparr>,
             \<lparr>content = ''alpha'', source_metadata = [(''source'', ''a.txt'')]\<rparr>,
             \<lparr>content = ''gamma'', source_metadata = []\<rparr>]\<rparr>"
  let ?es = "[\<lparr>vector = 4, entry_text = ''beta'', entry_metadata = []\<rparr>,
              \<lparr>vector = 5, entry_text = ''alpha'', entry_metadata = [(''source'', ''a.txt'')]\<rparr>,
              \<lparr>vector = 5, entry_text = ''gamma'', entry_metadata = []\<rparr>] :: int index_entry list"
  have es: "index_search (similarity demo) 4 3 demo_index = Inr ?es"
    by (simp add: index_search_def demo_def demo_index_def)
  have "length (sources ?r) \<le> 5 \<and> length (sources ?r) \<le> length (entries demo_index) \<and>
        length (query_sources ?qr) \<le> 3 \<and> length (query_sources ?qr) \<le> length (entries demo_index) \<and>
        length ?es \<le> 3 \<and> length ?es \<le> length (entries demo_index)"
    using retrieval_within_top_k [where env = "spec_env demo" and svc = service and dbs = demo_index
        and m = "''what''" and sid = None and r = ?r and q = "''what''" and qr = ?qr
        and sim = "similarity demo" and qv = 4 and k = 3 and ix = demo_index and es = ?es
        and cs = demo and r' = ?r and qr' = ?qr]
      demo_chat_what demo_directQuery_what es
    by blast
  then show ?thesis
    by (simp add: demo_chat_what demo_directQuery_what es)
qed

text \<open>The operations once retrieval has returned, and the generator once the model has
  answered.\<close>

lemma chat_after_search:
  assumes "searchDocuments env svc dbs m 5 = Inr results"
  shows "chat env svc dbs m sid =
           (case generatePersonaResponse env svc m (build_context results) of
              Inl e \<Rightarrow> Inl (JsError ''Error'' (''Failed to generate response: '' @ err_message e))
            | Inr resp \<Rightarrow>
                Inr \<lparr>response = resp, sources = map to_source results, sessionId = sid\<rparr>)"
  using assms by (simp add: chat_def try_catch_def new_Error_def split: sum.splits)

lemma directQuery_after_search:
  assumes "searchDocuments env svc dbs q 3 = Inr results"
  shows "directQuery env svc dbs q =
           (case generatePersonaResponse env svc q (build_context results) of
              Inl e \<Rightarrow> Inl (JsError ''Error'' (''Failed to process direct query: '' @ err_message e))
            | Inr resp \<Rightarrow>
                Inr \<lparr>query = q, query_response = resp, query_sources = map to_source results\<rparr>)"
  using assms by (simp add: directQuery_def try_catch_def new_Error_def split: sum.splits)

lemma generatePersonaResponse_first_choice:
  assumes "completions_create env
           \<lparr>model = ''gpt-3.5-turbo'',
            messages =
              [\<lparr>msg_role = ''system'', msg_content = system_prompt (the_persona svc)\<rparr>,
               \<lparr>msg_role = ''user'', msg_content = persona_prompt (the_persona svc) q ctx\<rparr>],
            max_tokens = 600, temperature = 7 / 10\<rparr> = Inr (c # rest)"
  shows "generatePersonaResponse env svc q ctx = Inr c"
  using assms by (simp add: generatePersonaResponse_def try_catch_def first_choice_def)

text \<open>
  C7: the context handed to the generator by \<open>chat\<close> and \<open>directQuery\<close> is the texts of the
  retrieved documents joined with a blank line (two newlines), in exactly the order in
  which retrieval returned them. Once retrieval has returned, the operation is the
  generator run on that joined context; the generator sends the context to the model
  inside its prompt, under \<^verbatim>\<open>Context:\<close>. The text of result \<open>i\<close> stands in the context
  after the \<open>i\<close> texts before it, each followed by the separator, and the context has no
  other characters.
\<close>

theorem context_joins_in_retrieval_order:
  "(searchDocuments env svc dbs m 5 = Inr found \<longrightarrow>
      chat env svc dbs m sid =
        (case generatePersonaResponse env svc m
                (join (map pageContent found) [CHR 0x0A, CHR 0x0A]) of
           Inl e \<Rightarrow> Inl (JsError ''Error'' (''Failed to generate response: '' @ err_message e))
         | Inr resp \<Rightarrow>
             Inr \<lparr>response = resp, sources = map to_source found, sessionId = sid\<rparr>)) \<and>
   (searchDocuments env svc dbs q 3 = Inr found' \<longrightarrow>
      directQuery env svc dbs q =
        (case generatePersonaResponse env svc q
                (join (map pageContent found') [CHR 0x0A, CHR 0x0A]) of
           Inl e \<Rightarrow> Inl (JsError ''Error'' (''Failed to process direct query: '' @ err_message e))
         | Inr resp \<Rightarrow>
             Inr \<lparr>query = q, query_response = resp, query_sources = map to_source found'\<rparr>)) \<and>
   (completions_create env
      \<lparr>model = ''gpt-3.5-turbo'',
       messages =
         [\<lparr>msg_role = ''system'', msg_content = system_prompt (the_persona svc)\<rparr>,
          \<lparr>msg_role = ''user'', msg_content = persona_prompt (the_persona svc) q' ctx\<rparr>],
       max_tokens = 600, temperature = 7 / 10\<rparr> = Inr (c # rest) \<longrightarrow>
      generatePersonaResponse env svc q' ctx = Inr c) \<and>
   (chat env svc dbs m sid = Inr r \<longrightarrow>
      (\<exists>results. searchDocuments env svc dbs m 5 = Inr results \<and>
         generatePersonaResponse env svc m (join (map pageContent results) [CHR 0x0A, CHR 0x0A]) =
           Inr (response r))) \<and>
   (directQuery env svc dbs q = Inr qr \<longrightarrow>
      (\<exists>results. searchDocuments env svc dbs q 3 = Inr results \<and>
         generatePersonaResponse env svc q (join (map pageContent results) [CHR 0x0A, CHR 0x0A]) =
           Inr (query_response qr))) \<and>
   (i < length results \<longrightarrow>
      take (length (pageContent (results ! i)))
        (drop (sum_list (map (\<lambda>d. length (pageContent d) + 2) (take i results)))
           (build_context results)) = pageContent (results ! i)) \<and>
   (Suc i < length results \<longrightarrow>
      take 2
        (drop (sum_list (map (\<lambda>d. length (pageContent d) + 2) (take i results))
                 + length (pageContent (results ! i)))
           (build_context results)) = [CHR 0x0A, CHR 0x0A]) \<and>
   length (build_context results) =
     sum_list (map (\<lambda>d. length (pageContent d)) results) + 2 * (length results - 1) \<and>
   str_includes (persona_prompt p q' ctx) (''Context:'' @ [CHR 0x0A] @ ctx)"
proof (intro conjI impI)
  assume "searchDocuments env svc dbs m 5 = Inr found"
  from chat_after_search [OF this, of sid]
  show "chat env svc dbs m sid =
        (case generatePersonaResponse env svc m
                (join (map pageContent found) [CHR 0x0A, CHR 0x0A]) of
           Inl e \<Rightarrow> Inl (JsError ''Error'' (''Failed to generate response: '' @ err_message e))
         | Inr resp \<Rightarrow>
             Inr \<lparr>response = resp, sources = map to_source found, sessionId = sid\<rparr>)"
    by (simp add: build_context_def nl_def)
next
  assume "searchDocuments env svc dbs q 3 = Inr found'"
  from directQuery_after_search [OF this]
  show "directQuery env svc dbs q =
        (case generatePersonaResponse env svc q
                (join (map pageContent found') [CHR 0x0A, CHR 0x0A]) of
           Inl e \<Rightarrow> Inl (JsError ''Error'' (''Failed to process direct query: '' @ err_message e))
         | Inr resp \<Rightarrow>
             Inr \<lparr>query = q, query_response = resp, query_sources = map to_source found'\<rparr>)"
    by (simp add: build_context_def nl_def)
next
  assume "completions_create env
      \<lparr>model = ''gpt-3.5-turbo'',
       messages =
         [\<lparr>msg_role = ''system'', msg_content = system_prompt (the_persona svc)\<rparr>,
          \<lparr>msg_role = ''user'', msg_content = persona_prompt (the_persona svc) q' ctx\<rparr>],
       max_tokens = 600, temperature = 7 / 10\<rparr> = Inr (c # rest)"
  then show "generatePersonaResponse env svc q' ctx = Inr c"
    by (rule generatePersonaResponse_first_choice)
next
  assume "chat env svc dbs m sid = Inr r"
  from chat_resolves [OF this]
  show "\<exists>results. searchDocuments env svc dbs m 5 = Inr results \<and>
         generatePersonaResponse env svc m (join (map pageContent results) [CHR 0x0A, CHR 0x0A]) =
           Inr (response r)"
    by (auto simp add: build_context_def nl_def)
next
  assume "directQuery env svc dbs q = Inr qr"
  from directQuery_resolves [OF this]
  show "\<exists>results. searchDocuments env svc dbs q 3 = Inr results \<and>
         generatePersonaResponse env svc q (join (map pageContent results) [CHR 0x0A, CHR 0x0A]) =
           Inr (query_response qr)"
    by (auto simp add: build_context_def nl_def)
next
  assume a: "i < length results"
  then have "i < length (map pageContent results)" by simp
  from join_nth [OF this, of "nl @ nl"] a
  show "take (length (pageContent (results ! i)))
        (drop (sum_list (map (\<lambda>d. length (pageContent d) + 2) (take i results)))
           (build_context results)) = pageContent (results ! i)"
    by (simp add: build_context_def nl_def take_map comp_def)
next
  assume a: "Suc i < length results"
  then have "Suc i < length (map pageContent results)" by simp
  from join_separator [OF this, of "nl @ nl"] a
  show "take 2
        (drop (sum_list (map (\<lambda>d. length (pageContent d) + 2) (take i results))
                 + length (pageContent (results ! i)))
           (build_context results)) = [CHR 0x0A, CHR 0x0A]"
    by (simp add: build_context_def nl_def take_map comp_def numeral_2_eq_2)
next
  show "length (build_context results) =
     sum_list (map (\<lambda>d. length (pageContent d)) results) + 2 * (length results - 1)"
    by (simp add: build_context_def nl_def length_join comp_def)
next
  have \<open>persona_prompt p q' ctx =
      (''You are '' @ name p @ '', '' @ role p
       @ ''. You should respond as if you are this person, using your knowledge, experience, and personal style.''
       @ nl @ nl
       @ ''Your background: '' @ background p @ nl
       @ ''Your communication style: '' @ style p @ nl @ nl
       @ ''Use the following context from your documents, interviews, articles, and videos to answer the user's question. Respond as if you are speaking directly to them, drawing from your personal experience and knowledge:''
       @ nl @ nl)
      @ (''Context:'' @ [CHR 0x0A] @ ctx)
      @ (nl @ nl
       @ ''Question: '' @ q' @ nl @ nl
       @ ''Remember: You ARE '' @ name p
       @ ''. Respond in first person, using phrases like "I believe", "In my experience", "Based on my work", etc. Be authentic to your persona while being helpful and informative.'')\<close>
    by (simp add: persona_prompt_def nl_def)
  then show "str_includes (persona_prompt p q' ctx) (''Context:'' @ [CHR 0x0A] @ ctx)"
    unfolding str_includes_def by (metis sublist_appendI)
qed

text \<open>The chat, the direct query and the context for the four retrieved documents,
  evaluated.\<close>

theorem context_joins_in_retrieval_order_witness:
  "chat (spec_env demo) service demo_index ''what'' None =
     Inr \<lparr>response = ''In my experience, yes.'',
          sources =
            [\<lparr>content = ''beta'', source_metadata = []\<rparr>,
             \<lparr>content = ''alpha'', source_metadata = [(''source'', ''a.txt'')]\<rparr>,
             \<lparr>content = ''gamma'', source_metadata = []\<rparr>,
             \<lparr>content = ''delta'', source_metadata = []\<rparr>],
          sessionId = None\<rparr> \<and>
   directQuery (spec_env demo) service demo_index ''what'' =
     Inr \<lparr>query = ''what'', query_response = ''In my experience, yes.'',
          query_sources =
            [\<lparr>content = ''beta'', source_metadata = []\<rparr>,
             \<lparr>content = ''alpha'', source_metadata = [(''source'', ''a.txt'')]\<rparr>,
             \<lparr>content = ''gamma'', source_metadata = []\<rparr>]\<rparr> \<and>
   generatePersonaResponse (spec_env demo) service ''what''
     (''beta'' @ [CHR 0x0A, CHR 0x0A] @ ''alpha'' @ [CHR 0x0A, CHR 0x0A] @ ''gamma''
       @ [CHR 0x0A, CHR 0x0A] @ ''delta'') = Inr ''In my experience, yes.'' \<and>
   build_context
     [\<lparr>pageContent = ''beta'', metadata = []\<rparr>,
      \<lparr>pageContent = ''alpha'', metadata = [(''source'', ''a.txt'')]\<rparr>,
      \<lparr>pageContent = ''gamma'', metadata = []\<rparr>,
      \<lparr>pageContent = ''delta'', metadata = []\<rparr>] =
     ''beta'' @ [CHR 0x0A, CHR 0x0A] @ ''alpha'' @ [CHR 0x0A, CHR 0x0A] @ ''gamma''
       @ [CHR 0x0A, CHR 0x0A] @ ''delta'' \<and>
   take 5 (drop 6 (build_context
     [\<lparr>pageContent = ''beta'', metadata = []\<rparr>,
      \<lparr>pageContent = ''alpha'', metadata = [(''source'', ''a.txt'')]\<rparr>,
      \<lparr>pageContent = ''gamma'', metadata = []\<rparr>,
      \<lparr>pageContent = ''delta'', metadata = []\<rparr>])) = ''alpha'' \<and>
   take 2 (drop 11 (build_context
     [\<lparr>pageContent = ''beta'', metadata = []\<rparr>,
      \<lparr>pageContent = ''alpha'', metadata = [(''source'', ''a.txt'')]\<rparr>,
      \<lparr>pageContent = ''gamma'', metadata = []\<rparr>,
      \<lparr>pageContent = ''delta'', metadata = []\<rparr>])) = [CHR 0x0A, CHR 0x0A] \<and>
   searchDocuments (spec_env demo) service demo_index ''what'' 5 =
     Inr [\<lparr>pageContent = ''beta'', metadata = []\<rparr>,
          \<lparr>pageContent = ''alpha'', metadata = [(''source'', ''a.txt'')]\<rparr>,
          \<lparr>pageContent = ''gamma'', metadata = []\<rparr>,
          \<lparr>pageContent = ''delta'', metadata = []\<rparr>]"
proof -
  let ?docs = "[\<lparr>pageContent = ''beta'', metadata = []\<rparr>,
      \<lparr>pageContent = ''alpha'', metadata = [(''source'', ''a.txt'')]\<rparr>,
      \<lparr>pageContent = ''gamma'', metadata = []\<rparr>,
      \<lparr>pageContent = ''delta'', metadata = []\<rparr>]"
  let ?docs3 = "[\<lparr>pageContent = ''beta'', metadata = []\<rparr>,
      \<lparr>pageContent = ''alpha'', metadata = [(''source'', ''a.txt'')]\<rparr>,
      \<lparr>pageContent = ''gamma'', metadata = []\<rparr>]"
  let ?ctx = "''beta'' @ [CHR 0x0A, CHR 0x0A] @ ''alpha'' @ [CHR 0x0A, CHR 0x0A] @ ''gamma''
       @ [CHR 0x0A, CHR 0x0A] @ ''delta''"
  let ?ctx3 = "''beta'' @ [CHR 0x0A, CHR 0x0A] @ ''alpha'' @ [CHR 0x0A, CHR 0x0A] @ ''gamma''"
  let ?r = "\<lparr>response = ''In my experience, yes.'',
          sources =
            [\<lparr>content = ''beta'', source_metadata = []\<rparr>,
             \<lparr>content = ''alpha'', source_metadata = [(''source'', ''a.txt'')]\<rparr>,
             \<lparr>content = ''gamma'', source_metadata = []\<rparr>,
             \<lparr>content = ''delta'', source_metadata = []\<rparr>],
          sessionId = None\<rparr>"
  let ?qr = "\<lparr>query = ''what'', query_response = ''In my experience, yes.'',
          query_sources =
            [\<lparr>content = ''beta'', source_metadata = []\<rparr>,
             \<lparr>content = ''alpha'', source_metadata = [(''source'', ''a.txt'')]\<rparr>,
             \<lparr>content = ''gamma'', source_metadata = []\<rparr>]\<rparr>"
  have s5: "searchDocuments (spec_env demo) service demo_index ''what'' 5 = Inr ?docs"
    and s3: "searchDocuments (spec_env demo) service demo_index ''what'' 3 = Inr ?docs3"
    by (simp_all add: demo_search_what)
  have j5: "join (map pageContent ?docs) [CHR 0x0A, CHR 0x0A] = ?ctx"
    and j3: "join (map pageContent ?docs3) [CHR 0x0A, CHR 0x0A] = ?ctx3"
    by simp_all
  have cc: "completions_create (spec_env demo) req = Inr [''In my experience, yes.'']" for req
    by (simp add: spec_env_def demo_def)
  note t = context_joins_in_retrieval_order [where env = "spec_env demo" and svc = service
        and dbs = demo_index and m = "''what''" and sid = None and r = ?r and q = "''what''"
        and qr = ?qr and i = 1 and results = ?docs and found = ?docs and found' = ?docs3
        and c = "''In my experience, yes.''" and rest = "[]" and q' = "''what''"]
  have g5: "generatePersonaResponse (spec_env demo) service ''what'' ?ctx = Inr ''In my experience, yes.''"
    using t [where ctx = ?ctx] cc by blast
  have g3: "generatePersonaResponse (spec_env demo) service ''what'' ?ctx3 = Inr ''In my experience, yes.''"
    using t [where ctx = ?ctx3] cc by blast
  have c5: "chat (spec_env demo) service demo_index ''what'' None = Inr ?r"
    using t [where ctx = ?ctx] s5 j5 g5 by (simp add: to_source_def)
  have d3: "directQuery (spec_env demo) service demo_index ''what'' = Inr ?qr"
    using t [where ctx = ?ctx] s3 j3 g3 by (simp add: to_source_def)
  have i: "(1::nat) < length ?docs" and j: "Suc 1 < length ?docs"
    by simp_all
  have off: "sum_list (map (\<lambda>d. length (pageContent d) + 2) (take 1 ?docs)) = 6"
    by simp
  have "take (length (pageContent (?docs ! 1))) (drop 6 (build_context ?docs)) = pageContent (?docs ! 1) \<and>
        take 2 (drop (6 + length (pageContent (?docs ! 1))) (build_context ?docs)) = [CHR 0x0A, CHR 0x0A]"
    using t [where ctx = ?ctx] i j off by metis
  moreover have "build_context ?docs = ?ctx"
    by (simp add: build_context_def nl_def)
  ultimately show ?thesis
    using c5 d3 g5 s5 by simp
qed

section \<open>The session map\<close>

text \<open>What each route leaves of the state of the process.\<close>

lemma rag_chat_state: "snd (rag_chat env st mf sidf) = st"
  by (simp add: rag_chat_def split: sum.splits)

lemma rag_chat_ignores_sessions:
  "fst (rag_chat env (st\<lparr>chatSessions := other\<rparr>) mf sidf) = fst (rag_chat env st mf sidf)"
  by (simp add: rag_chat_def split: sum.splits)

lemma rag_upload_sessions: "chatSessions (snd (rag_upload env st cf mf)) = chatSessions st"
  by (simp add: rag_upload_def Let_def split: sum.splits prod.splits)

lemma rag_session_state: "snd (rag_session env st s) = st"
  by (simp add: rag_session_def split: prod.splits)

lemma rag_stats_state: "snd (rag_stats env st) = st"
  by (simp add: rag_stats_def split: sum.splits)

lemma rag_query_state: "snd (rag_query env st qf) = st"
  by (simp add: rag_query_def split: sum.splits)

lemma rag_health_state: "snd (rag_health env st) = st"
  by (simp add: rag_health_def split: sum.splits)

lemma chat_get_session_state: "snd (chat_get_session st s) = st"
  by (simp add: chat_get_session_def split: option.splits)

lemma chat_sessions_state: "snd (chat_sessions st) = st"
  by (simp add: chat_sessions_def)

text \<open>
  C10: \<open>chat\<close> returns its \<^verbatim>\<open>sessionId\<close> argument unchanged in its result (\<^verbatim>\<open>null\<close>
  when the caller omits it). The chat route of the service leaves the whole state as it
  was and answers the same whatever the session map holds, so it neither creates, reads
  nor modifies an entry; a request that changes the session map is one to
  \<^verbatim>\<open>/chat/start\<close>, \<^verbatim>\<open>/chat/message\<close> or \<^verbatim>\<open>DELETE /chat/session\<close>.
\<close>

theorem chat_leaves_session_map:
  "(chat env svc dbs m sid = Inr r \<longrightarrow> sessionId r = sid) \<and>
   snd (handle env st (PostRagChat mf sidf)) = st \<and>
   fst (handle env (st\<lparr>chatSessions := other\<rparr>) (PostRagChat mf sidf)) =
     fst (handle env st (PostRagChat mf sidf)) \<and>
   (chatSessions (snd (handle env st req)) \<noteq> chatSessions st \<longrightarrow>
      (\<exists>md. req = PostChatStart md) \<or> (\<exists>sf msgf tf. req = PostChatMessage sf msgf tf) \<or>
      (\<exists>s. req = DeleteChatSession s))"
proof (intro conjI impI)
  assume "chat env svc dbs m sid = Inr r"
  from chat_resolves [OF this] show "sessionId r = sid" by blast
next
  show "snd (handle env st (PostRagChat mf sidf)) = st"
    by (simp add: rag_chat_state)
next
  show "fst (handle env (st\<lparr>chatSessions := other\<rparr>) (PostRagChat mf sidf)) =
     fst (handle env st (PostRagChat mf sidf))"
    by (simp add: rag_chat_ignores_sessions)
next
  assume a: "chatSessions (snd (handle env st req)) \<noteq> chatSessions st"
  show "(\<exists>md. req = PostChatStart md) \<or> (\<exists>sf msgf tf. req = PostChatMessage sf msgf tf) \<or>
      (\<exists>s. req = DeleteChatSession s)"
  proof (cases req)
    case (PostRagUpload cf mdf)
    with a show ?thesis by (simp add: rag_upload_sessions)
  next
    case (PostRagChat x y)
    with a show ?thesis by (simp add: rag_chat_state)
  next
    case (GetRagSession x)
    with a show ?thesis by (simp add: rag_session_state)
  next
    case GetRagStats
    with a show ?thesis by (simp add: rag_stats_state)
  next
    case (PostRagQuery x)
    with a show ?thesis by (simp add: rag_query_state)
  next
    case GetRagHealth
    with a show ?thesis by (simp add: rag_health_state)
  next
    case (GetChatSession x)
    with a show ?thesis by (simp add: chat_get_session_state)
  next
    case GetChatSessions
    with a show ?thesis by (simp add: chat_sessions_state)
  qed simp_all
qed

text \<open>The chat over the four entries, for any session identifier.\<close>

lemma demo_chat_what_session:
  "chat (spec_env demo) service demo_index ''what'' sid =
     Inr \<lparr>response = ''In my experience, yes.'',
          sources =
            [\<lparr>content = ''beta'', source_metadata = []\<rparr>,
             \<lparr>content = ''alpha'', source_metadata = [(''source'', ''a.txt'')]\<rparr>,
             \<lparr>content = ''gamma'', source_metadata = []\<rparr>,
             \<lparr>content = ''delta'', source_metadata = []\<rparr>],
          sessionId = sid\<rparr>"
  by (simp add: chat_def try_catch_def demo_search_what demo_generate to_source_def)

text \<open>A chat with and without session identifier, and the start of a session, evaluated.\<close>

theorem chat_leaves_session_map_witness:
  "(case chat (spec_env demo) service demo_index ''what'' (Some ''s-1'') of
      Inl e \<Rightarrow> False | Inr r \<Rightarrow> sessionId r = Some ''s-1'') \<and>
   (case chat (spec_env demo) service demo_index ''what'' None of
      Inl e \<Rightarrow> False | Inr r \<Rightarrow> sessionId r = None) \<and>
   chatSessions (snd (handle (spec_env demo) demo_state (PostChatStart None))) =
     [(''7f9c24e5-0000-4000-8000-000000000001'',
       \<lparr>session_id = ''7f9c24e5-0000-4000-8000-000000000001'',
        createdAt = ''2025-01-01T00:00:00.000Z'', session_messages = [],
        session_metadata = []\<rparr>)] \<and>
   chatSessions demo_state = []"
proof -
  let ?r = "\<lambda>sid. \<lparr>response = ''In my experience, yes.'',
          sources =
            [\<lparr>content = ''beta'', source_metadata = []\<rparr>,
             \<lparr>content = ''alpha'', source_metadata = [(''source'', ''a.txt'')]\<rparr>,
             \<lparr>content = ''gamma'', source_metadata = []\<rparr>,
             \<lparr>content = ''delta'', source_metadata = []\<rparr>],
          sessionId = sid\<rparr>"
  have start: "chatSessions (snd (handle (spec_env demo) demo_state (PostChatStart None))) =
     [(''7f9c24e5-0000-4000-8000-000000000001'',
       \<lparr>session_id = ''7f9c24e5-0000-4000-8000-000000000001'',
        createdAt = ''2025-01-01T00:00:00.000Z'', session_messages = [],
        session_metadata = []\<rparr>)]"
    by (simp add: chat_start_def Let_def spec_env_def demo_def demo_state_def)
  have empty: "chatSessions demo_state = []"
    by (simp add: demo_state_def)
  have "sessionId (?r (Some ''s-1'')) = Some ''s-1''"
    using chat_leaves_session_map [where env = "spec_env demo" and svc = service and dbs = demo_index
        and m = "''what''" and sid = "Some ''s-1''" and r = "?r (Some ''s-1'')"
        and st = demo_state and req = "PostChatStart None"]
      demo_chat_what_session [of "Some ''s-1''"]
    by blast
  moreover have "sessionId (?r None) = None"
    using chat_leaves_session_map [where env = "spec_env demo" and svc = service and dbs = demo_index
        and m = "''what''" and sid = None and r = "?r None"
        and st = demo_state and req = "PostChatStart None"]
      demo_chat_what_session [of None]
    by blast
  moreover have "(\<exists>md. PostChatStart None = PostChatStart md) \<or>
      (\<exists>sf msgf tf. PostChatStart None = PostChatMessage sf msgf tf) \<or>
      (\<exists>s. (PostChatStart None :: request) = DeleteChatSession s)"
    using chat_leaves_session_map [where env = "spec_env demo" and svc = service and dbs = demo_index
        and m = "''what''" and sid = None and r = "?r None"
        and st = demo_state and req = "PostChatStart None"]
      start empty
    by simp
  ultimately show ?thesis
    using start empty by (simp add: demo_chat_what_session)
qed

section \<open>Empty and short documents\<close>






















end
